theory Spec2Isabelle
  imports Complex_Main "HOL-Library.Multiset"
begin

section \<open>Float values as the numeric library produces them\<close>

text \<open>
  The program computes with 64-bit floats through numpy and pandas. A finite float is
  idealised as the real number it stands for (rounding and overflow are not modelled, nor
  is the sign of zero: a zero divisor counts as +0); the three special values are kept,
  because the claims are about them: a division by zero gives an infinity or NaN and
  raises nothing.
\<close>

datatype npfloat = Fin real | PInf | NInf | NaN

definition signed_inf :: "real \<Rightarrow> npfloat" where
  "signed_inf s = (if 0 < s then PInf else if s < 0 then NInf else NaN)"

definition sign_of :: "npfloat \<Rightarrow> real" where
  "sign_of x = (case x of Fin a \<Rightarrow> sgn a | PInf \<Rightarrow> 1 | NInf \<Rightarrow> - 1 | NaN \<Rightarrow> 0)"

definition np_neg :: "npfloat \<Rightarrow> npfloat" where
  "np_neg x = (case x of Fin a \<Rightarrow> Fin (- a) | PInf \<Rightarrow> NInf | NInf \<Rightarrow> PInf | NaN \<Rightarrow> NaN)"

fun np_add :: "npfloat \<Rightarrow> npfloat \<Rightarrow> npfloat" where
  "np_add (Fin a) (Fin b) = Fin (a + b)"
| "np_add NaN y = NaN"
| "np_add x NaN = NaN"
| "np_add PInf NInf = NaN"
| "np_add NInf PInf = NaN"
| "np_add PInf y = PInf"
| "np_add x PInf = PInf"
| "np_add NInf y = NInf"
| "np_add x NInf = NInf"

definition np_sub :: "npfloat \<Rightarrow> npfloat \<Rightarrow> npfloat" where
  "np_sub x y = np_add x (np_neg y)"

fun np_mul :: "npfloat \<Rightarrow> npfloat \<Rightarrow> npfloat" where
  "np_mul (Fin a) (Fin b) = Fin (a * b)"
| "np_mul NaN y = NaN"
| "np_mul x NaN = NaN"
| "np_mul x y = signed_inf (sign_of x * sign_of y)"

fun np_div :: "npfloat \<Rightarrow> npfloat \<Rightarrow> npfloat" where
  "np_div (Fin a) (Fin b) = (if b = 0 then signed_inf a else Fin (a / b))"
| "np_div NaN y = NaN"
| "np_div x NaN = NaN"
| "np_div (Fin a) y = Fin 0"
| "np_div x (Fin b) = signed_inf (sign_of x * (if b < 0 then - 1 else 1))"
| "np_div x y = NaN"

definition np_sqrt :: "npfloat \<Rightarrow> npfloat" where
  "np_sqrt x = (case x of Fin a \<Rightarrow> (if a < 0 then NaN else Fin (sqrt a))
                | PInf \<Rightarrow> PInf | NInf \<Rightarrow> NaN | NaN \<Rightarrow> NaN)"

text \<open>The order of the non-NaN values, used by the NaN-skipping minimum.\<close>

fun np_le :: "npfloat \<Rightarrow> npfloat \<Rightarrow> bool" where
  "np_le (Fin a) (Fin b) = (a \<le> b)"
| "np_le NInf y = True"
| "np_le x PInf = True"
| "np_le x y = False"

definition np_min :: "npfloat \<Rightarrow> npfloat \<Rightarrow> npfloat" where
  "np_min x y = (if np_le x y then x else y)"

section \<open>Series reductions of pandas\<close>

text \<open>Every reduction below skips NaN entries first, as pandas does by default.\<close>

definition dropna_values :: "npfloat list \<Rightarrow> npfloat list" where
  "dropna_values xs = filter (\<lambda>x. x \<noteq> NaN) xs"

definition np_sum :: "npfloat list \<Rightarrow> npfloat" where
  "np_sum xs = foldr np_add xs (Fin 0)"

text \<open>\<^verbatim>\<open>Series.mean()\<close>: NaN when nothing is left after skipping.\<close>

definition series_mean :: "npfloat list \<Rightarrow> npfloat" where
  "series_mean xs =
     (let v = dropna_values xs in
      if v = [] then NaN else np_div (np_sum v) (Fin (real (length v))))"

text \<open>
  \<^verbatim>\<open>Series.std()\<close>: the sample standard deviation (one delta degree of freedom);
  with fewer than two values left it is NaN.
\<close>

definition series_std :: "npfloat list \<Rightarrow> npfloat" where
  "series_std xs =
     (let v = dropna_values xs; n = length v in
      if n < 2 then NaN
      else (let avg = np_div (np_sum v) (Fin (real n));
                sq = map (\<lambda>x. np_mul (np_sub avg x) (np_sub avg x)) v
            in np_sqrt (np_div (np_sum sq) (Fin (real (n - 1))))))"

text \<open>\<^verbatim>\<open>Series.min()\<close>: NaN when nothing is left after skipping.\<close>

definition series_min :: "npfloat list \<Rightarrow> npfloat" where
  "series_min xs = (case dropna_values xs of [] \<Rightarrow> NaN | v # vs \<Rightarrow> foldl np_min v vs)"

section \<open>Prices and the columns derived from them\<close>

text \<open>
  A stored price is a float that is not NaN: the loader drops the rows whose price is
  missing (line 27) before a frame is stored, and nothing writes to the Price column
  afterwards.
\<close>

datatype price = Finite real | PlusInf | MinusInf

definition np :: "price \<Rightarrow> npfloat" where
  "np p = (case p of Finite a \<Rightarrow> Fin a | PlusInf \<Rightarrow> PInf | MinusInf \<Rightarrow> NInf)"

definition price_of :: "npfloat \<Rightarrow> price option" where
  "price_of x = (case x of Fin a \<Rightarrow> Some (Finite a) | PInf \<Rightarrow> Some PlusInf
                 | NInf \<Rightarrow> Some MinusInf | NaN \<Rightarrow> None)"

text \<open>
  \<^verbatim>\<open>Series.pct_change()\<close> on the price column:
  \<^verbatim>\<open>price / price.shift(1) - 1\<close>, so the first entry is NaN.
\<close>

definition pct_step :: "price \<Rightarrow> price \<Rightarrow> npfloat" where
  "pct_step prev cur = np_sub (np_div (np cur) (np prev)) (Fin 1)"

fun pct_change :: "price list \<Rightarrow> npfloat list" where
  "pct_change [] = []"
| "pct_change (p # ps) = NaN # map2 pct_step (p # ps) ps"

text \<open>\<^verbatim>\<open>Series.cummax()\<close>: the running maximum.\<close>

definition price_max :: "price \<Rightarrow> price \<Rightarrow> price" where
  "price_max a b = (if np_le (np a) (np b) then b else a)"

fun cummax_from :: "price \<Rightarrow> price list \<Rightarrow> price list" where
  "cummax_from m [] = []"
| "cummax_from m (p # ps) = price_max m p # cummax_from (price_max m p) ps"

fun cummax :: "price list \<Rightarrow> price list" where
  "cummax [] = []"
| "cummax (p # ps) = p # cummax_from p ps"

section \<open>The stored frame and calculate_metrics\<close>

text \<open>
  An index label is a timestamp when the Date column was read as dates, and the cell's
  text when it was not.
\<close>

datatype label = Stamp nat | Text string

text \<open>
  The frame a loaded instrument is stored as: one row per retained observation (index
  label and Price), and the derived Returns column once it has been written.
\<close>

record dataframe =
  rows :: "(label \<times> price) list"
  Returns :: "npfloat list option"

definition Price :: "dataframe \<Rightarrow> price list" where
  "Price df = map snd (rows df)"

definition Index :: "dataframe \<Rightarrow> label list" where
  "Index df = map fst (rows df)"

definition empty_frame :: "dataframe \<Rightarrow> bool" where
  "empty_frame df = (rows df = [])"

record metrics =
  TotalReturn :: npfloat
  Volatility :: npfloat
  SharpeRatio :: npfloat
  MaxDrawdown :: npfloat

text \<open>\<^verbatim>\<open>.iloc[0]\<close> and \<open>.iloc[-1]\<close>: None stands for the IndexError.\<close>

definition iloc_first :: "'a list \<Rightarrow> 'a option" where
  "iloc_first xs = (case xs of [] \<Rightarrow> None | x # _ \<Rightarrow> Some x)"

definition iloc_last :: "'a list \<Rightarrow> 'a option" where
  "iloc_last xs = (if xs = [] then None else Some (last xs))"

definition drawdown :: "price list \<Rightarrow> npfloat list" where
  "drawdown ps = map2 (\<lambda>p m. np_sub (np_div (np p) (np m)) (Fin 1)) ps (cummax ps)"

text \<open>
  \<^verbatim>\<open>calculate_metrics(df, risk_free_rate)\<close>. The frame is passed by reference and
  the function assigns its Returns column, so the model returns the frame as it is left
  together with the metrics.
\<close>

definition calculate_metrics :: "dataframe \<Rightarrow> real \<Rightarrow> dataframe \<times> metrics" where
  "calculate_metrics df risk_free_rate =
     (if empty_frame df then
        (df, \<lparr>TotalReturn = Fin 0, Volatility = Fin 0, SharpeRatio = Fin 0, MaxDrawdown = Fin 0\<rparr>)
      else
        (let returns = pct_change (Price df);
             df' = df\<lparr>Returns := Some returns\<rparr>;
             total_return =
               (case (iloc_last (Price df'), iloc_first (Price df')) of
                  (Some l, Some f) \<Rightarrow> np_sub (np_div (np l) (np f)) (Fin 1)
                | _ \<Rightarrow> Fin 0);
             ann_volatility = np_mul (series_std returns) (Fin (sqrt 365));
             daily_rf = risk_free_rate / 365;
             mean_daily_return = series_mean returns;
             daily_std = series_std returns;
             sharpe_ratio =
               (if daily_std = Fin 0 \<or> daily_std = NaN then Fin 0
                else np_mul (np_div (np_sub mean_daily_return (Fin daily_rf)) daily_std)
                            (Fin (sqrt 365)));
             max_drawdown = series_min (drawdown (Price df'))
         in (df', \<lparr>TotalReturn = total_return, Volatility = ann_volatility,
                   SharpeRatio = sharpe_ratio, MaxDrawdown = max_drawdown\<rparr>)))"

text \<open>
  The words of the specification for the drawdown: the running peak at a point is the
  greatest price up to and including it, and the drawdown there is price / peak - 1.
\<close>

definition running_peak :: "real list \<Rightarrow> nat \<Rightarrow> real" where
  "running_peak ps i = Max (set (take (Suc i) ps))"

definition drawdown_at :: "real list \<Rightarrow> nat \<Rightarrow> real" where
  "drawdown_at ps i = ps ! i / running_peak ps i - 1"

section \<open>Text and numbers as the libraries read them\<close>

text \<open>
  Text is a list of bytes, the UTF-8 form of the program's strings. Two pieces of text
  work are the libraries' own and are taken as they are, as the two functions of a
  \<open>library\<close>:
  \<^item> \<open>strip_title\<close> is Python's \<^verbatim>\<open>c.strip().title()\<close> of line 13, which
    consults the Unicode tables for what is blank and what is a cased letter;
  \<^item> \<open>parse_number\<close> is what \<^verbatim>\<open>pd.to_numeric(..., errors='coerce')\<close> of line
    25 makes of one text cell: the number it reads, or NaN when it reads none.
  Every property stated for all libraries holds for the two functions Python and pandas
  provide.
\<close>

record library =
  strip_title :: "string \<Rightarrow> string"
  parse_number :: "string \<Rightarrow> npfloat"

text \<open>
  On text that is all ASCII, \<open>strip\<close> and \<open>title\<close> are the following: blanks
  are the ASCII white space, cased letters the 52 ASCII letters, and \<open>title\<close> puts a
  letter in upper case after a character that is no letter and in lower case after a
  letter. They leave every byte beyond ASCII as it is, which is what Python does to a
  character that is neither blank nor cased.
\<close>

definition ascii_space :: "char \<Rightarrow> bool" where
  "ascii_space c = (c \<in> set [CHR '' '', CHR 0x09, CHR 0x0A, CHR 0x0B, CHR 0x0C, CHR 0x0D,
                               CHR 0x1C, CHR 0x1D, CHR 0x1E, CHR 0x1F])"

definition ascii_strip :: "string \<Rightarrow> string" where
  "ascii_strip s = rev (dropWhile ascii_space (rev (dropWhile ascii_space s)))"

definition lower_letters :: string where
  "lower_letters = ''abcdefghijklmnopqrstuvwxyz''"

definition upper_letters :: string where
  "upper_letters = ''ABCDEFGHIJKLMNOPQRSTUVWXYZ''"

definition ascii_upper :: "char \<Rightarrow> char" where
  "ascii_upper c = (case map_of (zip lower_letters upper_letters) c of Some u \<Rightarrow> u | None \<Rightarrow> c)"

definition ascii_lower :: "char \<Rightarrow> char" where
  "ascii_lower c = (case map_of (zip upper_letters lower_letters) c of Some l \<Rightarrow> l | None \<Rightarrow> c)"

definition ascii_cased :: "char \<Rightarrow> bool" where
  "ascii_cased c = (c \<in> set lower_letters \<or> c \<in> set upper_letters)"

fun title_from :: "bool \<Rightarrow> string \<Rightarrow> string" where
  "title_from previous_is_cased [] = []"
| "title_from previous_is_cased (c # cs) =
     (if ascii_cased c
      then (if previous_is_cased then ascii_lower c else ascii_upper c) # title_from True cs
      else c # title_from False cs)"

definition ascii_title :: "string \<Rightarrow> string" where
  "ascii_title s = title_from False s"

text \<open>
  The number pandas reads from a plain decimal literal: blanks around, an optional sign,
  digits with an optional decimal point. \<open>decimal_number\<close> gives NaN for every other
  text; pandas does so for text without a digit that spells no infinity.
\<close>

definition digit_of :: "char \<Rightarrow> nat option" where
  "digit_of c = map_of (zip ''0123456789'' [0, 1, 2, 3, 4, 5, 6, 7, 8, 9]) c"

fun digits_value :: "nat \<Rightarrow> string \<Rightarrow> nat option" where
  "digits_value acc [] = Some acc"
| "digits_value acc (c # cs) =
     (case digit_of c of None \<Rightarrow> None | Some d \<Rightarrow> digits_value (10 * acc + d) cs)"

definition parse_unsigned :: "string \<Rightarrow> real option" where
  "parse_unsigned s =
     (let ip = takeWhile (\<lambda>c. c \<noteq> CHR ''.'') s;
          fp = drop 1 (dropWhile (\<lambda>c. c \<noteq> CHR ''.'') s)
      in if ip = [] \<and> fp = [] then None
         else (case (digits_value 0 ip, digits_value 0 fp) of
                 (Some i, Some f) \<Rightarrow> Some (real i + real f / 10 ^ length fp)
               | _ \<Rightarrow> None))"

definition parser_blank :: "char \<Rightarrow> bool" where
  "parser_blank c = (c \<in> set [CHR '' '', CHR 0x09, CHR 0x0A, CHR 0x0B, CHR 0x0C, CHR 0x0D])"

definition decimal_number :: "string \<Rightarrow> npfloat" where
  "decimal_number s =
     (case rev (dropWhile parser_blank (rev (dropWhile parser_blank s))) of
        [] \<Rightarrow> NaN
      | c # cs \<Rightarrow>
          (case (if c = CHR ''-'' then map_option uminus (parse_unsigned cs)
                 else if c = CHR ''+'' then parse_unsigned cs
                 else parse_unsigned (c # cs)) of
             None \<Rightarrow> NaN
           | Some r \<Rightarrow> Fin r))"

text \<open>
  The library of the examples. Their column names are ASCII, one with a euro sign added
  (which Python, too, leaves as it is), and their price cells are plain decimal literals
  or text without a digit, so that it agrees there with what Python and pandas provide.
\<close>

definition example_library :: library where
  "example_library = \<lparr>strip_title = (\<lambda>c. ascii_title (ascii_strip c)), parse_number = decimal_number\<rparr>"

text \<open>\<^verbatim>\<open>str.replace(old, '')\<close> for a one-character ASCII \<open>old\<close>, taken literally.\<close>

definition remove_char :: "char \<Rightarrow> string \<Rightarrow> string" where
  "remove_char c s = filter (\<lambda>x. x \<noteq> c) s"

section \<open>What the CSV reader hands to the loader\<close>

text \<open>
  Reading bytes and splitting fields is the reader's work, not the program's; the model
  starts from what \<^verbatim>\<open>pd.read_csv(path, parse_dates=['Date'], thousands=',')\<close>
  finds at the path.

  \<^item> A column other than Date comes typed by the reader: numeric when every cell reads as a
    number (NaN is an empty cell), text otherwise (an empty cell reads \<open>nan\<close>
    once the loader converts the column to \<open>str\<close>).
  \<^item> The column headed exactly \<open>Date\<close> is converted to timestamps when all its cells
    read as dates. When they do not, the reader raises nothing and returns the cells
    unaltered, as text. The table records the place of this column among the others.
  \<^item> A file may have no column headed exactly \<open>Date\<close>; then the reader raises.

  Tables are rectangular: the columns of one table have the same length; Date cells are
  all present; no other column is headed exactly \<open>Date\<close>.
\<close>

datatype date_column = Timestamps "nat list" | DateText "string list"

datatype column = NumCol "npfloat list" | ObjCol "string list"

record csv_table =
  date_cells :: "(nat \<times> date_column) option"
  value_columns :: "(string \<times> column) list"

datatype source = NoSuchFile | Unreadable string | Csv csv_table

datatype exn =
    FileNotFoundError
  | ReaderError string
  | MissingParseDates
  | CloseLastNotFound "string list"
  | AttributeError
  | IndexNotOneDimensional
  | KeyError string
  | DuplicateLabels
  | UnicodeEncodeError

text \<open>
  \<^item> \<open>ReaderError\<close>: whatever else the reader raises on a file it cannot read;
  \<^item> \<open>MissingParseDates\<close>: its ValueError \<open>Missing column provided to 'parse_dates': 'Date'\<close>;
  \<^item> \<open>CloseLastNotFound\<close>: the ValueError the loader raises itself, with \<open>df.columns\<close>;
  \<^item> \<open>AttributeError\<close>: \<open>df['Price']\<close> is a frame, not a column, when two columns
    carry that name, and a frame has no \<open>dtype\<close>;
  \<^item> \<open>IndexNotOneDimensional\<close>: the ValueError of \<open>set_index('Date')\<close> when two
    columns are named Date;
  \<^item> \<open>KeyError\<close>: a column that is not there;
  \<^item> \<open>DuplicateLabels\<close>: the ValueError of a reindex on duplicate labels;
  \<^item> \<open>UnicodeEncodeError\<close>: raised by \<open>print\<close> on a console that cannot encode the
    text.
\<close>

text \<open>
  The frame while it is being loaded: the Date column, its place among the columns, and
  the other columns by name.
\<close>

record frame =
  Date :: date_column
  date_position :: nat
  others :: "(string \<times> column) list"

definition read_csv :: "source \<Rightarrow> exn + frame" where
  "read_csv src =
     (case src of
        NoSuchFile \<Rightarrow> Inl FileNotFoundError
      | Unreadable msg \<Rightarrow> Inl (ReaderError msg)
      | Csv t \<Rightarrow>
          (case date_cells t of
             None \<Rightarrow> Inl MissingParseDates
           | Some (pos, d) \<Rightarrow> Inr \<lparr>Date = d, date_position = pos, others = value_columns t\<rparr>))"

text \<open>\<^verbatim>\<open>df.columns\<close>, in the order of the file.\<close>

definition column_names :: "frame \<Rightarrow> string list" where
  "column_names df =
     take (date_position df) (map fst (others df)) @ ''Date''
       # drop (date_position df) (map fst (others df))"

text \<open>Line 13. \<open>Date\<close> is its own stripped title, so only the other names can change.\<close>

definition normalize_names :: "library \<Rightarrow> frame \<Rightarrow> frame" where
  "normalize_names lib df = df\<lparr>others := map (\<lambda>(n, c). (strip_title lib n, c)) (others df)\<rparr>"

text \<open>Lines 15 and 16.\<close>

definition require_close_last :: "frame \<Rightarrow> exn + frame" where
  "require_close_last df =
     (if ''Close/Last'' \<notin> set (column_names df)
      then Inl (CloseLastNotFound (column_names df)) else Inr df)"

text \<open>Line 18.\<close>

definition rename_price :: "frame \<Rightarrow> frame" where
  "rename_price df =
     df\<lparr>others := map (\<lambda>(n, c). (if n = ''Close/Last'' then ''Price'' else n, c)) (others df)\<rparr>"

text \<open>\<^verbatim>\<open>df['Price']\<close> used as a column (line 20 reads its \<open>dtype\<close>).\<close>

definition price_column :: "frame \<Rightarrow> exn + column" where
  "price_column df =
     (case filter (\<lambda>(n, c). n = ''Price'') (others df) of
        [] \<Rightarrow> Inl (KeyError ''Price'')
      | [(n, c)] \<Rightarrow> Inr c
      | _ \<Rightarrow> Inl AttributeError)"

text \<open>
  Lines 20 and 21: only a text column is touched (a text column has dtype \<open>object\<close>,
  as in the pandas releases the program was written for).
\<close>

definition strip_currency :: "column \<Rightarrow> column" where
  "strip_currency col =
     (case col of
        NumCol xs \<Rightarrow> NumCol xs
      | ObjCol ss \<Rightarrow> ObjCol (map (\<lambda>s. remove_char (CHR '','') (remove_char (CHR ''$'') s)) ss))"

text \<open>A cell of the Price column before it is made numeric.\<close>

datatype cell = Number npfloat | Str string

definition cells :: "column \<Rightarrow> cell list" where
  "cells col = (case col of NumCol xs \<Rightarrow> map Number xs | ObjCol ss \<Rightarrow> map Str ss)"

definition labels :: "date_column \<Rightarrow> label list" where
  "labels d = (case d of Timestamps ts \<Rightarrow> map Stamp ts | DateText ss \<Rightarrow> map Text ss)"

text \<open>Line 23: the Date column becomes the index of the rows.\<close>

definition set_index :: "frame \<Rightarrow> column \<Rightarrow> exn + (label \<times> cell) list" where
  "set_index df price =
     (if ''Date'' \<in> set (map fst (others df)) then Inl IndexNotOneDimensional
      else Inr (zip (labels (Date df)) (cells price)))"

text \<open>
  Line 24: rows in ascending order of their label. Text labels compare as Python strings
  do, by code point, which is the order of their bytes. A column holds labels of one
  kind, so the two mixed cases of \<open>label_le\<close> are never used. Rows with equal labels
  keep their order.
\<close>

fun str_le :: "string \<Rightarrow> string \<Rightarrow> bool" where
  "str_le [] ys = True"
| "str_le (x # xs) [] = False"
| "str_le (x # xs) (y # ys) =
     (if x = y then str_le xs ys else (of_char x :: nat) < of_char y)"

fun label_le :: "label \<Rightarrow> label \<Rightarrow> bool" where
  "label_le (Stamp a) (Stamp b) = (a \<le> b)"
| "label_le (Text a) (Text b) = str_le a b"
| "label_le (Stamp a) (Text b) = True"
| "label_le (Text a) (Stamp b) = False"

fun insert_row :: "label \<times> 'a \<Rightarrow> (label \<times> 'a) list \<Rightarrow> (label \<times> 'a) list" where
  "insert_row r [] = [r]"
| "insert_row r (x # xs) =
     (if label_le (fst r) (fst x) then r # x # xs else x # insert_row r xs)"

definition sort_index :: "(label \<times> 'a) list \<Rightarrow> (label \<times> 'a) list" where
  "sort_index rs = foldr insert_row rs []"

text \<open>Line 25, on one cell.\<close>

definition to_numeric :: "library \<Rightarrow> cell \<Rightarrow> npfloat" where
  "to_numeric lib c = (case c of Number x \<Rightarrow> x | Str s \<Rightarrow> parse_number lib s)"

text \<open>Line 27: \<^verbatim>\<open>dropna(subset=['Price'])\<close>.\<close>

fun dropna :: "(label \<times> npfloat) list \<Rightarrow> (label \<times> price) list" where
  "dropna [] = []"
| "dropna ((l, x) # rs) =
     (case price_of x of None \<Rightarrow> dropna rs | Some p \<Rightarrow> (l, p) # dropna rs)"

text \<open>The body of the \<open>try\<close> block, lines 12 to 27, in the order of the source.\<close>

definition load_body :: "library \<Rightarrow> source \<Rightarrow> exn + dataframe" where
  "load_body lib src =
     (case read_csv src of
        Inl e \<Rightarrow> Inl e
      | Inr df0 \<Rightarrow>
          (case require_close_last (normalize_names lib df0) of
             Inl e \<Rightarrow> Inl e
           | Inr df1 \<Rightarrow>
               (let df2 = rename_price df1 in
                case price_column df2 of
                  Inl e \<Rightarrow> Inl e
                | Inr price \<Rightarrow>
                    (case set_index df2 (strip_currency price) of
                       Inl e \<Rightarrow> Inl e
                     | Inr rs \<Rightarrow>
                         Inr \<lparr>rows = dropna (map (\<lambda>(l, c). (l, to_numeric lib c)) (sort_index rs)),
                              Returns = None\<rparr>))))"

text \<open>What the program prints, and how a call ends.\<close>

datatype message =
    FailedToLoad exn
  | FileNotFound
  | NoValidPriceData
  | Success string nat
  | PleaseLoadFirst
  | ReportRow string metrics
  | NoDataLoaded
  | NeedTwoCoins
  | NoValidCorrelationData
  | PerformanceChart "(string \<times> npfloat list \<times> npfloat list) list"
  | Heatmap "string list" "npfloat list list"
  | AllCleared
  | InvalidOption

datatype 'a outcome = Returned 'a | Raised exn

text \<open>
  \<open>print\<close> is a call, and it can raise: a console gives, for a message, the exception
  its print raises, or None when the line is written. The model follows the console
  through the load of choice 1, where the text printed comes from the file and from the
  keyboard; the other choices are modelled for a console that takes what they print.
\<close>

type_synonym console = "message \<Rightarrow> exn option"

definition say :: "console \<Rightarrow> message \<Rightarrow> 'a \<Rightarrow> ('a \<times> message list) outcome" where
  "say con m x = (case con m of Some e \<Rightarrow> Raised e | None \<Rightarrow> Returned (x, [m]))"

text \<open>
  \<^verbatim>\<open>load_data_from_csv\<close>: the \<open>except Exception\<close> clause takes every exception of
  the body, prints it and returns None. The print stands in the handler, outside the
  \<open>try\<close>: what it raises leaves the function.
\<close>

definition load_data_from_csv ::
    "console \<Rightarrow> library \<Rightarrow> source \<Rightarrow> (dataframe option \<times> message list) outcome" where
  "load_data_from_csv con lib src =
     (case load_body lib src of
        Inr df \<Rightarrow> Returned (Some df, [])
      | Inl e \<Rightarrow> say con (FailedToLoad e) None)"

section \<open>The session: the loaded coins and the menu's operations\<close>

text \<open>The dictionary \<open>coins\<close>, in insertion order; its keys are distinct.\<close>

type_synonym coins = "(string \<times> dataframe) list"

fun dict_set :: "(string \<times> 'a) list \<Rightarrow> string \<Rightarrow> 'a \<Rightarrow> (string \<times> 'a) list" where
  "dict_set [] k v = [(k, v)]"
| "dict_set ((k', v') # kvs) k v =
     (if k' = k then (k, v) # kvs else (k', v') # dict_set kvs k v)"

text \<open>
  Choice 1, lines 134 to 146. \<open>ticker\<close> is the key of line 134, the symbol typed in
  upper case and stripped; \<open>NoSuchFile\<close> is the path for which
  \<^verbatim>\<open>os.path.exists\<close> is false. The dictionary is written (line 141) before the
  success is printed (line 142).
\<close>

definition load_coin ::
    "console \<Rightarrow> library \<Rightarrow> coins \<Rightarrow> string \<Rightarrow> source \<Rightarrow> (coins \<times> message list) outcome" where
  "load_coin con lib coins ticker src =
     (if src = NoSuchFile then say con FileNotFound coins
      else (case load_data_from_csv con lib src of
              Raised e \<Rightarrow> Raised e
            | Returned (None, out) \<Rightarrow>
                (case say con NoValidPriceData coins of
                   Raised e \<Rightarrow> Raised e
                 | Returned (c, out') \<Rightarrow> Returned (c, out @ out'))
            | Returned (Some df, out) \<Rightarrow>
                if \<not> empty_frame df
                then (case say con (Success ticker (length (rows df)))
                             (dict_set coins ticker (df\<lparr>Returns := Some (pct_change (Price df))\<rparr>)) of
                        Raised e \<Rightarrow> Raised e
                      | Returned (c, out') \<Rightarrow> Returned (c, out @ out'))
                else (case say con NoValidPriceData coins of
                        Raised e \<Rightarrow> Raised e
                      | Returned (c, out') \<Rightarrow> Returned (c, out @ out'))))"

text \<open>
  Choice 2, lines 149 to 160. The frames in the dictionary are the objects
  \<open>calculate_metrics\<close> writes to, so the dictionary is returned as the loop leaves it.
\<close>

fun report_rows :: "coins \<Rightarrow> coins \<times> message list" where
  "report_rows [] = ([], [])"
| "report_rows ((name, df) # rest) =
     (let (df', m) = calculate_metrics df 0.04;
          (rest', out) = report_rows rest
      in ((name, df') # rest', ReportRow name m # out))"

definition view_report :: "coins \<Rightarrow> coins \<times> message list" where
  "view_report coins = (if coins = [] then (coins, [PleaseLoadFirst]) else report_rows coins)"

text \<open>\<open>plot_performance\<close>: what is drawn for each coin that has rows.\<close>

definition plot_performance :: "coins \<Rightarrow> message" where
  "plot_performance coins =
     PerformanceChart
       (map (\<lambda>(name, df). (name,
                            map (\<lambda>p. np_div (np p) (np (hd (Price df)))) (Price df),
                            drawdown (Price df)))
            (filter (\<lambda>(name, df). \<not> empty_frame df) coins))"

section \<open>Correlation of returns\<close>

text \<open>
  \<open>combined_returns\<close>: a frame that starts with no rows and no columns. Assigning a
  column to a frame without rows gives the frame the column's index; assigning to a frame
  with rows aligns the new column to the rows already there (a label the column does not
  have gets NaN, a label only the column has is left out), which pandas refuses when the
  column's own labels repeat, unless the two indexes are equal.
\<close>

record combined =
  c_index :: "label list"
  c_columns :: "(string \<times> npfloat list) list"

definition reindex :: "label list \<Rightarrow> npfloat list \<Rightarrow> label list \<Rightarrow> npfloat list" where
  "reindex idx vals target =
     map (\<lambda>l. case map_of (zip idx vals) l of Some v \<Rightarrow> v | None \<Rightarrow> NaN) target"

definition assign_column ::
    "combined \<Rightarrow> string \<Rightarrow> label list \<Rightarrow> npfloat list \<Rightarrow> exn + combined" where
  "assign_column cr name idx vals =
     (if c_index cr = [] then Inr \<lparr>c_index = idx, c_columns = dict_set (c_columns cr) name vals\<rparr>
      else if idx = c_index cr then Inr (cr\<lparr>c_columns := dict_set (c_columns cr) name vals\<rparr>)
      else if \<not> distinct idx then Inl DuplicateLabels
      else Inr (cr\<lparr>c_columns := dict_set (c_columns cr) name (reindex idx vals (c_index cr))\<rparr>))"

text \<open>The loop of lines 101 to 103.\<close>

fun combine_returns :: "coins \<Rightarrow> combined \<Rightarrow> exn + combined" where
  "combine_returns [] cr = Inr cr"
| "combine_returns ((name, df) # rest) cr =
     (if empty_frame df then combine_returns rest cr
      else (case Returns df of
              None \<Rightarrow> Inl (KeyError ''Returns'')
            | Some r \<Rightarrow>
                (case assign_column cr name (Index df) r of
                   Inl e \<Rightarrow> Inl e
                 | Inr cr' \<Rightarrow> combine_returns rest cr')))"

text \<open>\<^verbatim>\<open>DataFrame.empty\<close>: an axis of length 0.\<close>

definition combined_empty :: "combined \<Rightarrow> bool" where
  "combined_empty cr = (c_index cr = [] \<or> c_columns cr = [])"

text \<open>
  \<^verbatim>\<open>DataFrame.corr()\<close> with its defaults: Pearson's coefficient of each pair of
  columns over the rows where both are finite, one such row being enough to try. The
  coefficient is NaN when there is no such row and when the divisor is zero; no division
  by zero takes place.
\<close>

fun both_finite :: "npfloat \<times> npfloat \<Rightarrow> (real \<times> real) option" where
  "both_finite (Fin a, Fin b) = Some (a, b)"
| "both_finite (x, y) = None"

definition finite_pairs :: "npfloat list \<Rightarrow> npfloat list \<Rightarrow> (real \<times> real) list" where
  "finite_pairs x y = List.map_filter both_finite (zip x y)"

definition mean_of :: "real list \<Rightarrow> real" where
  "mean_of xs = sum_list xs / real (length xs)"

definition pearson :: "npfloat list \<Rightarrow> npfloat list \<Rightarrow> npfloat" where
  "pearson x y =
     (let ps = finite_pairs x y; nobs = length ps in
      if nobs < 1 then NaN
      else (let meanx = mean_of (map fst ps);
                meany = mean_of (map snd ps);
                ssqdm_x = sum_list (map (\<lambda>(a, b). (a - meanx) * (a - meanx)) ps);
                ssqdm_y = sum_list (map (\<lambda>(a, b). (b - meany) * (b - meany)) ps);
                covxy = sum_list (map (\<lambda>(a, b). (a - meanx) * (b - meany)) ps);
                divisor = sqrt (ssqdm_x * ssqdm_y)
            in if divisor \<noteq> 0 then Fin (covxy / divisor) else NaN))"

definition corr :: "npfloat list list \<Rightarrow> npfloat list list" where
  "corr cols = map (\<lambda>x. map (\<lambda>y. pearson x y) cols) cols"

text \<open>\<open>plot_correlation\<close>, lines 95 to 113. Nothing in it catches an exception.\<close>

definition plot_correlation :: "coins \<Rightarrow> message list outcome" where
  "plot_correlation coins =
     (if length coins < 2 then Returned [NeedTwoCoins]
      else (case combine_returns coins \<lparr>c_index = [], c_columns = []\<rparr> of
              Inl e \<Rightarrow> Raised e
            | Inr combined_returns \<Rightarrow>
                if combined_empty combined_returns then Returned [NoValidCorrelationData]
                else Returned [Heatmap (map fst (c_columns combined_returns))
                                       (corr (map snd (c_columns combined_returns)))]))"

text \<open>One round of the menu loop, for every choice but 6 (which leaves the loop).\<close>

datatype command =
    LoadNew string source
  | ViewReport
  | PlotPerformance
  | PlotCorrelation
  | ClearAll
  | Unknown

definition menu_step ::
    "console \<Rightarrow> library \<Rightarrow> coins \<Rightarrow> command \<Rightarrow> (coins \<times> message list) outcome" where
  "menu_step con lib coins cmd =
     (case cmd of
        LoadNew ticker src \<Rightarrow> load_coin con lib coins ticker src
      | ViewReport \<Rightarrow> Returned (view_report coins)
      | PlotPerformance \<Rightarrow>
          Returned (coins, [if coins \<noteq> [] then plot_performance coins else NoDataLoaded])
      | PlotCorrelation \<Rightarrow>
          (if coins \<noteq> [] then
             (case plot_correlation coins of
                Raised e \<Rightarrow> Raised e
              | Returned out \<Rightarrow> Returned (coins, out))
           else Returned (coins, [NoDataLoaded]))
      | ClearAll \<Rightarrow> Returned ([], [AllCleared])
      | Unknown \<Rightarrow> Returned (coins, [InvalidOption]))"

section \<open>Definitions used to state the properties\<close>

text \<open>
  The normalization steps in the order the specification lists them, for comparison with
  \<open>load_body\<close>: after the read, (1) trim and title-case the names, (2) require the
  close/last column, (3) rename it, (4) strip currency signs and separators, (6) make the
  price numeric, (7) sort by the index, (8) drop the rows without price. Step (5), the
  dates, is the reader's, as in the source.
\<close>

definition steps_in_listed_order :: "library \<Rightarrow> source \<Rightarrow> exn + dataframe" where
  "steps_in_listed_order lib src =
     (case read_csv src of
        Inl e \<Rightarrow> Inl e
      | Inr df0 \<Rightarrow>
          (case require_close_last (normalize_names lib df0) of
             Inl e \<Rightarrow> Inl e
           | Inr df1 \<Rightarrow>
               (let df2 = rename_price df1 in
                case price_column df2 of
                  Inl e \<Rightarrow> Inl e
                | Inr price \<Rightarrow>
                    (case set_index df2 (strip_currency price) of
                       Inl e \<Rightarrow> Inl e
                     | Inr rs \<Rightarrow>
                         Inr \<lparr>rows = dropna (sort_index (map (\<lambda>(l, c). (l, to_numeric lib c)) rs)),
                              Returns = None\<rparr>))))"

text \<open>
  The rows of a table before any is dropped, in the order of the file: the label of each
  row with the number its price cell reads as, the cell being the one of the column
  \<open>price\<close> with currency signs and separators removed.
\<close>

definition numeric_rows :: "library \<Rightarrow> date_column \<Rightarrow> column \<Rightarrow> (label \<times> npfloat) list" where
  "numeric_rows lib d price =
     map (\<lambda>(l, c). (l, to_numeric lib c)) (zip (labels d) (cells (strip_currency price)))"

text \<open>The three sums of Pearson's coefficient, over the rows both columns share.\<close>

definition ssq_x :: "(real \<times> real) list \<Rightarrow> real" where
  "ssq_x ps = sum_list (map (\<lambda>(a, b). (a - mean_of (map fst ps)) * (a - mean_of (map fst ps))) ps)"

definition ssq_y :: "(real \<times> real) list \<Rightarrow> real" where
  "ssq_y ps = sum_list (map (\<lambda>(a, b). (b - mean_of (map snd ps)) * (b - mean_of (map snd ps))) ps)"

definition cov_xy :: "(real \<times> real) list \<Rightarrow> real" where
  "cov_xy ps = sum_list (map (\<lambda>(a, b). (a - mean_of (map fst ps)) * (b - mean_of (map snd ps))) ps)"

text \<open>
  The aligned returns in the words of the specification's aligner, on the calendar the
  code uses: the coins that have rows, each with its returns looked up at the dates of the
  first of them (NaN at a date it does not have).
\<close>

definition nonempty_coins :: "coins \<Rightarrow> coins" where
  "nonempty_coins coins = filter (\<lambda>(name, df). \<not> empty_frame df) coins"

definition returns_of :: "dataframe \<Rightarrow> npfloat list" where
  "returns_of df = (case Returns df of None \<Rightarrow> [] | Some r \<Rightarrow> r)"

definition aligned_returns :: "coins \<Rightarrow> npfloat list list" where
  "aligned_returns coins =
     (case nonempty_coins coins of
        [] \<Rightarrow> []
      | (name0, df0) # rest \<Rightarrow>
          map (\<lambda>(name, df). reindex (Index df) (returns_of df) (Index df0))
              ((name0, df0) # rest))"

text \<open>
  A frame as the session stores it: the Returns column is there, one entry per row, and
  no date occurs twice.
\<close>

definition stored_frame :: "dataframe \<Rightarrow> bool" where
  "stored_frame df =
     (distinct (Index df)
      \<and> (case Returns df of None \<Rightarrow> False | Some r \<Rightarrow> length r = length (rows df)))"

text \<open>Consoles: one that writes every line, and one that cannot encode beyond ASCII.\<close>

definition open_console :: console where
  "open_console m = None"



text \<open>The series of the specification's scenario: 100, 110, 99, 121 on days 1 to 4.\<close>

definition scenario_series :: dataframe where
  "scenario_series =
     \<lparr>rows = [(Stamp 1, Finite 100), (Stamp 2, Finite 110), (Stamp 3, Finite 99),
              (Stamp 4, Finite 121)],
      Returns = None\<rparr>"

text \<open>A series of one row, as the session stores it after a load.\<close>

definition single_row_series :: dataframe where
  "single_row_series = \<lparr>rows = [(Stamp 1, Finite 100)], Returns = Some [NaN]\<rparr>"

text \<open>A table with dates and an Open column only.\<close>

definition table_without_close :: csv_table where
  "table_without_close =
     \<lparr>date_cells = Some (0, Timestamps [1, 2]),
      value_columns = [(''open'', NumCol [Fin 1, Fin 2])]\<rparr>"

text \<open>A table in the format of the export: currency text in the close/last column.\<close>

definition table_export :: csv_table where
  "table_export =
     \<lparr>date_cells = Some (0, Timestamps [3, 1, 2]),
      value_columns = [('' close/last'', ObjCol [''$1,234.50'', ''pending'', ''$7'']),
                       (''Volume'', NumCol [Fin 10, Fin 20, Fin 30])]\<rparr>"

text \<open>Two coins whose dates do not meet, and two columns of returns.\<close>

definition disjoint_coins :: coins where
  "disjoint_coins =
     [(''BTC'', \<lparr>rows = [(Stamp 1, Finite 100), (Stamp 2, Finite 110), (Stamp 3, Finite 99)],
                 Returns = Some [NaN, Fin (1 / 10), Fin (- 1 / 10)]\<rparr>),
      (''ETH'', \<lparr>rows = [(Stamp 4, Finite 50), (Stamp 5, Finite 55), (Stamp 6, Finite 44)],
                 Returns = Some [NaN, Fin (1 / 10), Fin (- 1 / 5)]\<rparr>)]"


section \<open>Properties of the metrics\<close>

lemmas metrics_simps = calculate_metrics_def empty_frame_def Price_def iloc_last_def iloc_first_def
  series_std_def series_mean_def dropna_values_def drawdown_def series_min_def np_sub_def
  np_neg_def np_min_def pct_step_def np_def price_max_def

subsection \<open>The running peak and the drawdown\<close>

lemma length_cummax_from: "length (cummax_from m ps) = length ps"
  by (induction ps arbitrary: m) auto

lemma length_cummax: "length (cummax ps) = length ps"
  by (cases ps) (auto simp: length_cummax_from)

lemma Max_insert_max:
  "finite S \<Longrightarrow> Max (insert (max m p) S) = Max (insert m (insert p (S::real set)))"
  by (cases "S = {}") (simp_all add: max.assoc)

lemma price_max_Finite: "price_max (Finite a) (Finite b) = Finite (max a b)"
  by (simp add: price_max_def np_def max_def)

lemma cummax_from_nth:
  "i < length ps \<Longrightarrow>
   cummax_from (Finite m) (map Finite ps) ! i = Finite (Max (insert m (set (take (Suc i) ps))))"
proof (induction ps arbitrary: m i)
  case Nil
  then show ?case by simp
next
  case (Cons p ps)
  show ?case
  proof (cases i)
    case 0
    then show ?thesis by (simp add: price_max_Finite max.commute)
  next
    case (Suc j)
    with Cons.prems have j: "j < length ps" by simp
    have "cummax_from (Finite m) (map Finite (p # ps)) ! i
          = Finite (Max (insert (max m p) (set (take (Suc j) ps))))"
      using Suc Cons.IH [OF j] by (simp add: price_max_Finite)
    also have "Max (insert (max m p) (set (take (Suc j) ps)))
          = Max (insert m (insert p (set (take (Suc j) ps))))"
      by (rule Max_insert_max) simp
    finally show ?thesis using Suc by simp
  qed
qed

lemma cummax_nth:
  "i < length ps \<Longrightarrow> cummax (map Finite ps) ! i = Finite (running_peak ps i)"
proof (cases ps)
  case Nil
  assume "i < length ps"
  with Nil show ?thesis by simp
next
  case (Cons p qs)
  assume i: "i < length ps"
  show ?thesis
  proof (cases i)
    case 0
    with Cons show ?thesis by (simp add: running_peak_def)
  next
    case (Suc j)
    with i Cons have "j < length qs" by simp
    then show ?thesis using Cons Suc by (simp add: running_peak_def cummax_from_nth)
  qed
qed

lemma running_peak_ge: "i < length ps \<Longrightarrow> ps ! i \<le> running_peak ps i"
  unfolding running_peak_def
  by (rule Max_ge) (auto simp: in_set_conv_nth intro!: exI [of _ i])

lemma running_peak_mono:
  assumes "i \<le> j" "j < length ps"
  shows "running_peak ps i \<le> running_peak ps j"
  unfolding running_peak_def
proof (rule Max_mono)
  show "set (take (Suc i) ps) \<subseteq> set (take (Suc j) ps)"
    using assms by (simp add: set_take_subset_set_take)
  show "set (take (Suc i) ps) \<noteq> {}" using assms by (cases ps) auto
  show "finite (set (take (Suc j) ps))" by simp
qed

lemma drawdown_positive:
  assumes "\<forall>p\<in>set ps. 0 < p"
  shows "drawdown (map Finite ps) = map (\<lambda>i. Fin (drawdown_at ps i)) [0..<length ps]"
proof (rule nth_equalityI)
  show "length (drawdown (map Finite ps)) = length (map (\<lambda>i. Fin (drawdown_at ps i)) [0..<length ps])"
    by (simp add: drawdown_def length_cummax)
next
  fix i assume "i < length (drawdown (map Finite ps))"
  then have i: "i < length ps" by (simp add: drawdown_def length_cummax)
  have "0 < ps ! i" using assms i by simp
  with running_peak_ge [OF i] have pk: "running_peak ps i \<noteq> 0" by linarith
  show "drawdown (map Finite ps) ! i = map (\<lambda>i. Fin (drawdown_at ps i)) [0..<length ps] ! i"
    using i pk
    by (simp add: drawdown_def length_cummax cummax_nth drawdown_at_def np_sub_def np_neg_def np_def)
qed

lemma drawdown_at_bounds:
  assumes "\<forall>p\<in>set ps. 0 < p" "i < length ps"
  shows "- 1 < drawdown_at ps i \<and> drawdown_at ps i \<le> 0"
proof -
  have p: "0 < ps ! i" using assms by simp
  have le: "ps ! i \<le> running_peak ps i" by (rule running_peak_ge [OF assms(2)])
  then have pk: "0 < running_peak ps i" using p by linarith
  have "0 < ps ! i / running_peak ps i" using p pk by simp
  moreover have "ps ! i / running_peak ps i \<le> 1" using le pk by simp
  ultimately show ?thesis by (simp add: drawdown_at_def)
qed

lemma foldl_np_min_Fin: "foldl np_min (Fin v) (map Fin vs) = Fin (foldl min v vs)"
  by (induction vs arbitrary: v) (auto simp: np_min_def min_def)

lemma foldl_min_Min: "foldl min v vs = Min (set (v # vs))"
proof (induction vs arbitrary: v)
  case Nil
  then show ?case by simp
next
  case (Cons w ws)
  have "foldl min v (w # ws) = Min (set (min v w # ws))"
    using Cons.IH [of "min v w"] by simp
  also have "\<dots> = Min (set (v # w # ws))"
    by (cases "ws = []") (simp_all add: min.assoc)
  finally show ?case .
qed

lemma series_min_Fin:
  "xs \<noteq> [] \<Longrightarrow> series_min (map Fin xs) = Fin (Min (set xs))"
proof (cases xs)
  case Nil
  assume "xs \<noteq> []"
  with Nil show ?thesis by simp
next
  case (Cons v vs)
  have "dropna_values (map Fin xs) = map Fin xs"
    by (simp add: dropna_values_def)
  then show ?thesis
    using Cons foldl_min_Min [of v vs]
    by (simp add: series_min_def foldl_np_min_Fin)
qed

lemma max_drawdown_nonempty:
  assumes "rows df \<noteq> []"
  shows "MaxDrawdown (snd (calculate_metrics df rf)) = series_min (drawdown (Price df))"
  using assms by (simp add: calculate_metrics_def empty_frame_def Let_def Price_def)

lemma max_drawdown_empty:
  assumes "rows df = []"
  shows "MaxDrawdown (snd (calculate_metrics df rf)) = Fin 0"
  using assms by (simp add: calculate_metrics_def empty_frame_def)

lemma max_drawdown_positive:
  assumes pos: "\<forall>p\<in>set ps. 0 < p" and ne: "ps \<noteq> []"
  shows "series_min (drawdown (map Finite ps)) = Fin (Min (drawdown_at ps ` {..<length ps}))"
proof -
  let ?xs = "map (drawdown_at ps) [0..<length ps]"
  have "drawdown (map Finite ps) = map Fin ?xs"
    using drawdown_positive [OF pos] by (simp add: comp_def)
  moreover have "?xs \<noteq> []" using ne by simp
  moreover have "set ?xs = drawdown_at ps ` {..<length ps}" by (simp add: lessThan_atLeast0)
  ultimately show ?thesis using series_min_Fin [of ?xs] by simp
qed

text \<open>
  C4, as the code has it. For every series whose prices are finite and positive,
  MaxDrawdown is the least of the pointwise drawdowns price / running peak - 1, the
  running peak being the greatest price up to and including the point, which
  \<open>cummax\<close> computes and which never decreases; MaxDrawdown lies between -1 and 0,
  and it is 0 for the empty series and for a series that never falls below its running
  peak.
\<close>

theorem max_drawdown_of_positive_prices:
  assumes fin: "Price df = map Finite ps" and pos: "\<forall>p\<in>set ps. 0 < p"
  shows "\<exists>m. MaxDrawdown (snd (calculate_metrics df rf)) = Fin m
           \<and> - 1 \<le> m \<and> m \<le> 0
           \<and> (rows df = [] \<longrightarrow> m = 0)
           \<and> (rows df \<noteq> [] \<longrightarrow> m = Min (drawdown_at ps ` {..<length ps}))
           \<and> ((\<forall>i<length ps. running_peak ps i \<le> ps ! i) \<longrightarrow> m = 0)
           \<and> (\<forall>i j. i \<le> j \<and> j < length ps \<longrightarrow>
                  cummax (Price df) ! i = Finite (running_peak ps i)
                \<and> running_peak ps i \<le> running_peak ps j)"
proof (cases "rows df = []")
  case True
  then have "Price df = []" by (simp add: Price_def)
  with fin have "ps = []" by simp
  then show ?thesis using True max_drawdown_empty [OF True, of rf] by simp
next
  case False
  let ?S = "drawdown_at ps ` {..<length ps}"
  have ne: "ps \<noteq> []" using False fin by (auto simp: Price_def)
  have fin_S: "finite ?S" and nonempty: "?S \<noteq> {}" using ne by auto
  have m: "MaxDrawdown (snd (calculate_metrics df rf)) = Fin (Min ?S)"
    using max_drawdown_nonempty [OF False, of rf] max_drawdown_positive [OF pos ne] fin by simp
  have all: "\<forall>x\<in>?S. - 1 < x \<and> x \<le> 0"
    using drawdown_at_bounds [OF pos] by auto
  have "Min ?S \<in> ?S" by (rule Min_in [OF fin_S nonempty])
  with all have b: "- 1 \<le> Min ?S" "Min ?S \<le> 0" by force+
  have z: "Min ?S = 0" if flat: "\<forall>i<length ps. running_peak ps i \<le> ps ! i"
  proof -
    have "drawdown_at ps i = 0" if i: "i < length ps" for i
    proof -
      have "ps ! i = running_peak ps i"
        using flat i running_peak_ge [OF i] by force
      moreover have "0 < ps ! i" using pos i by simp
      ultimately show ?thesis by (simp add: drawdown_at_def)
    qed
    then have "?S = {0}" using ne by auto
    then show ?thesis by simp
  qed
  have pk: "\<forall>i j. i \<le> j \<and> j < length ps \<longrightarrow>
                  cummax (Price df) ! i = Finite (running_peak ps i)
                \<and> running_peak ps i \<le> running_peak ps j"
    unfolding fin using cummax_nth running_peak_mono by (metis le_less_trans)
  show ?thesis
    using m b z False pk by (intro exI [of _ "Min ?S"]) simp
qed

theorem max_drawdown_of_positive_prices_witness:
  "\<exists>m. MaxDrawdown (snd (calculate_metrics scenario_series (1 / 25))) = Fin m
      \<and> - 1 \<le> m \<and> m \<le> 0
      \<and> m = Min (drawdown_at [100, 110, 99, 121] ` {..<length [100, 110, 99, 121 :: real]})"
proof -
  have f: "Price scenario_series = map Finite [100, 110, 99, 121]"
    by (simp add: scenario_series_def Price_def)
  have h: "\<forall>p\<in>set [100, 110, 99, 121 :: real]. 0 < p"
    by simp
  have n: "rows scenario_series \<noteq> []"
    by (simp add: scenario_series_def)
  from max_drawdown_of_positive_prices [OF f h, of "1 / 25"] n show ?thesis by blast
qed

text \<open>
  The claim as worded fails for a series the loader returns and the report evaluates: for
  the prices 1 and -1 the running peak stays 1 and MaxDrawdown is -2.
\<close>

theorem negative_price_drawdown_below_minus_one:
  "MaxDrawdown (snd (calculate_metrics
      \<lparr>rows = [(Stamp 1, Finite 1), (Stamp 2, Finite (- 1))], Returns = Some [NaN, Fin (- 2)]\<rparr>
      (1 / 25))) = Fin (- 2)"
  by (simp add: metrics_simps Let_def)

subsection \<open>Degenerate series and the scenario\<close>

text \<open>
  C1. The empty series gets the all-zero record. A series of one row does not: its
  Returns column holds a single NaN, the sample standard deviation of fewer than two
  values is NaN, and the Volatility is NaN, not 0. The Sharpe ratio of the same series is
  0, because the branch of line 55 tests the standard deviation for NaN.
\<close>

theorem single_row_volatility_nan:
  "snd (calculate_metrics \<lparr>rows = [], Returns = r\<rparr> rf)
     = \<lparr>TotalReturn = Fin 0, Volatility = Fin 0, SharpeRatio = Fin 0, MaxDrawdown = Fin 0\<rparr>
   \<and> snd (calculate_metrics single_row_series rf)
     = \<lparr>TotalReturn = Fin 0, Volatility = NaN, SharpeRatio = Fin 0, MaxDrawdown = Fin 0\<rparr>"
  by (simp add: single_row_series_def metrics_simps)

theorem single_row_volatility_nan_witness:
  "Volatility (snd (calculate_metrics single_row_series (1 / 25))) = NaN"
  using single_row_volatility_nan [of None "1 / 25"] by simp

text \<open>
  C9. For the prices 100, 110, 99, 121 the Returns column is NaN, 0.10, -0.10, 2/9, so
  the returns that exist are 0.10, -0.10, 0.2222...; the pointwise drawdowns are
  0, 0, 99/110 - 1, 0; TotalReturn is 0.21 and MaxDrawdown is -0.10.
\<close>

theorem scenario_values:
  "pct_change (Price scenario_series) = [NaN, Fin (1 / 10), Fin (- 1 / 10), Fin (2 / 9)]
   \<and> dropna_values (pct_change (Price scenario_series)) = [Fin (1 / 10), Fin (- 1 / 10), Fin (2 / 9)]
   \<and> drawdown (Price scenario_series) = [Fin 0, Fin 0, Fin (99 / 110 - 1), Fin 0]
   \<and> TotalReturn (snd (calculate_metrics scenario_series rf)) = Fin (21 / 100)
   \<and> MaxDrawdown (snd (calculate_metrics scenario_series rf)) = Fin (- 1 / 10)"
  by (simp add: scenario_series_def metrics_simps Let_def)

theorem scenario_values_witness:
  "TotalReturn (snd (calculate_metrics scenario_series (1 / 25))) = Fin (21 / 100)
   \<and> MaxDrawdown (snd (calculate_metrics scenario_series (1 / 25))) = Fin (- 1 / 10)"
  using scenario_values [of "1 / 25"] by simp

subsection \<open>What the metrics write\<close>

lemma calculate_metrics_rows: "rows (fst (calculate_metrics df rf)) = rows df"
  by (simp add: calculate_metrics_def Let_def)

lemma report_rows_frame:
  "map (\<lambda>(name, df). (name, rows df)) (fst (report_rows coins))
   = map (\<lambda>(name, df). (name, rows df)) coins"
proof (induction coins)
  case Nil
  then show ?case by simp
next
  case (Cons c coins)
  obtain name df where c: "c = (name, df)" by (cases c)
  show ?case using Cons by (simp add: c case_prod_unfold Let_def calculate_metrics_rows)
qed

text \<open>
  C10. \<open>calculate_metrics\<close> leaves the rows of the frame as they are (index labels,
  Price values and their number); the frame it leaves is the one it got, or that one with
  the Returns column written. The report of choice 2 therefore leaves the keys of the
  dictionary and the rows of every stored series unchanged.
\<close>

theorem metrics_leave_prices_untouched:
  "Index (fst (calculate_metrics df rf)) = Index df
   \<and> Price (fst (calculate_metrics df rf)) = Price df
   \<and> length (rows (fst (calculate_metrics df rf))) = length (rows df)
   \<and> (fst (calculate_metrics df rf) = df
      \<or> fst (calculate_metrics df rf) = df\<lparr>Returns := Some (pct_change (Price df))\<rparr>)
   \<and> map (\<lambda>(name, df). (name, rows df)) (fst (view_report coins))
      = map (\<lambda>(name, df). (name, rows df)) coins"
proof -
  have "fst (calculate_metrics df rf) = df
      \<or> fst (calculate_metrics df rf) = df\<lparr>Returns := Some (pct_change (Price df))\<rparr>"
    by (simp add: calculate_metrics_def Let_def)
  moreover have "map (\<lambda>(name, df). (name, rows df)) (fst (view_report coins))
      = map (\<lambda>(name, df). (name, rows df)) coins"
    by (simp add: view_report_def report_rows_frame)
  ultimately show ?thesis
    by (simp add: Index_def Price_def calculate_metrics_rows)
qed

theorem metrics_leave_prices_untouched_witness:
  "map (\<lambda>(name, df). (name, rows df)) (fst (view_report disjoint_coins))
   = map (\<lambda>(name, df). (name, rows df)) disjoint_coins"
  using metrics_leave_prices_untouched [of scenario_series "1 / 25" disjoint_coins] by blast

section \<open>Properties of the loader\<close>

lemmas text_simps = ascii_strip_def ascii_space_def ascii_title_def ascii_cased_def ascii_upper_def
  ascii_lower_def lower_letters_def upper_letters_def remove_char_def decimal_number_def parser_blank_def
  parse_unsigned_def digit_of_def example_library_def

lemmas load_simps = load_body_def read_csv_def normalize_names_def require_close_last_def
  column_names_def rename_price_def price_column_def strip_currency_def set_index_def labels_def
  cells_def sort_index_def to_numeric_def price_of_def

subsection \<open>Sorting, and dropping the rows without price\<close>

lemma insert_row_map:
  "insert_row (l, f c) (map (\<lambda>(l, c). (l, f c)) rs) = map (\<lambda>(l, c). (l, f c)) (insert_row (l, c) rs)"
  by (induction rs) (auto split: prod.splits)

lemma sort_index_map:
  "sort_index (map (\<lambda>(l, c). (l, f c)) rs) = map (\<lambda>(l, c). (l, f c)) (sort_index rs)"
proof (induction rs)
  case Nil
  then show ?case by (simp add: sort_index_def)
next
  case (Cons r rs)
  obtain l c where r: "r = (l, c)" by (cases r)
  have "sort_index (map (\<lambda>(l, c). (l, f c)) (r # rs))
        = insert_row (l, f c) (sort_index (map (\<lambda>(l, c). (l, f c)) rs))"
    by (simp add: sort_index_def r)
  also have "\<dots> = insert_row (l, f c) (map (\<lambda>(l, c). (l, f c)) (sort_index rs))"
    by (simp only: Cons.IH)
  also have "\<dots> = map (\<lambda>(l, c). (l, f c)) (insert_row (l, c) (sort_index rs))"
    by (rule insert_row_map)
  finally show ?case by (simp add: sort_index_def r)
qed

lemma mset_insert_row: "mset (insert_row r rs) = add_mset r (mset rs)"
  by (induction rs) auto

lemma mset_sort_index: "mset (sort_index rs) = mset rs"
  by (induction rs) (simp_all add: sort_index_def mset_insert_row)

lemma set_insert_row: "set (insert_row r rs) = insert r (set rs)"
  by (induction rs) auto

lemma set_sort_index: "set (sort_index rs) = set rs"
  by (induction rs) (simp_all add: sort_index_def set_insert_row)

lemma str_le_total: "str_le a b \<or> str_le b a"
proof (induction a b rule: str_le.induct)
  case (1 ys)
  then show ?case by simp
next
  case (2 x xs)
  then show ?case by simp
next
  case (3 x xs y ys)
  show ?case
  proof (cases "x = y")
    case True
    with 3 show ?thesis by simp
  next
    case False
    then have "(of_char x :: nat) \<noteq> of_char y" by simp
    then have "(of_char x :: nat) < of_char y \<or> (of_char y :: nat) < of_char x" by linarith
    then show ?thesis using False by auto
  qed
qed

lemma str_le_trans: "str_le a b \<Longrightarrow> str_le b c \<Longrightarrow> str_le a c"
proof (induction a arbitrary: b c)
  case Nil
  then show ?case by simp
next
  case (Cons x xs)
  from Cons.prems(1) obtain y ys where b: "b = y # ys" by (cases b) auto
  from Cons.prems(2) b obtain z zs where c: "c = z # zs" by (cases c) auto
  show ?case
  proof (cases "x = y")
    case xy: True
    show ?thesis
    proof (cases "y = z")
      case True
      with xy Cons.prems b c have "str_le xs ys" "str_le ys zs" by simp_all
      then have "str_le xs zs" by (rule Cons.IH)
      with xy True c show ?thesis by simp
    next
      case False
      with xy Cons.prems b c show ?thesis by simp
    qed
  next
    case xy: False
    show ?thesis
    proof (cases "y = z")
      case True
      with xy Cons.prems b c show ?thesis by simp
    next
      case False
      from xy Cons.prems(1) b have 1: "(of_char x :: nat) < of_char y" by simp
      from False Cons.prems(2) b c have 2: "(of_char y :: nat) < of_char z" by simp
      from 1 2 have lt: "(of_char x :: nat) < of_char z" by simp
      then have "x \<noteq> z" by auto
      with lt c show ?thesis by simp
    qed
  qed
qed

lemma label_le_total: "label_le a b \<or> label_le b a"
  by (cases a; cases b) (auto simp: str_le_total)

lemma label_le_trans:
  assumes "label_le a b" and "label_le b c"
  shows "label_le a c"
proof (cases a)
  case (Stamp x)
  then show ?thesis using assms by (cases b; cases c) simp_all
next
  case (Text x)
  with assms(1) obtain y where b: "b = Text y" by (cases b) simp_all
  with assms(2) obtain z where c: "c = Text z" by (cases c) simp_all
  from assms Text b c have "str_le x y" "str_le y z" by simp_all
  then have "str_le x z" by (rule str_le_trans)
  then show ?thesis using Text c by simp
qed

lemma sorted_insert_row:
  "sorted_wrt label_le (map fst rs) \<Longrightarrow> sorted_wrt label_le (map fst (insert_row r rs))"
proof (induction rs)
  case Nil
  then show ?case by simp
next
  case (Cons x xs)
  show ?case
  proof (cases "label_le (fst r) (fst x)")
    case True
    have "label_le (fst r) (fst y)" if "y \<in> set xs" for y
    proof -
      have "label_le (fst x) (fst y)" using that Cons.prems by simp
      with True show ?thesis by (rule label_le_trans)
    qed
    then show ?thesis using True Cons.prems by simp
  next
    case False
    then have xr: "label_le (fst x) (fst r)" using label_le_total by blast
    have s: "sorted_wrt label_le (map fst (insert_row r xs))"
      using Cons by simp
    have "\<forall>y\<in>set (insert_row r xs). label_le (fst x) (fst y)"
      using xr Cons.prems by (simp add: set_insert_row)
    then show ?thesis using False s by simp
  qed
qed

lemma sorted_sort_index: "sorted_wrt label_le (map fst (sort_index rs))"
  by (induction rs) (simp_all add: sort_index_def sorted_insert_row)

lemma fst_set_dropna: "fst ` set (dropna rs) \<subseteq> fst ` set rs"
  by (induction rs rule: dropna.induct) (auto split: option.splits)

lemma sorted_dropna:
  "sorted_wrt label_le (map fst rs) \<Longrightarrow> sorted_wrt label_le (map fst (dropna rs))"
proof (induction rs rule: dropna.induct)
  case 1
  then show ?case by simp
next
  case (2 l x rs)
  from "2.prems" have tl: "sorted_wrt label_le (map fst rs)" by simp
  show ?case
  proof (cases "price_of x")
    case None
    then show ?thesis using "2.IH"(1) tl by simp
  next
    case (Some p)
    then have s: "sorted_wrt label_le (map fst (dropna rs))" using "2.IH"(2) tl by simp
    have "label_le l (fst y)" if y: "y \<in> set (dropna rs)" for y
    proof -
      from y have "fst y \<in> fst ` set rs" using fst_set_dropna [of rs] by blast
      then obtain z where "z \<in> set rs" "fst z = fst y" by auto
      then show ?thesis using "2.prems" by auto
    qed
    then show ?thesis using s Some by simp
  qed
qed

lemma price_of_np: "price_of x = Some p \<longleftrightarrow> x = np p"
  by (cases x; cases p) (auto simp: price_of_def np_def)

lemma np_not_NaN: "np p \<noteq> NaN"
  by (cases p) (simp_all add: np_def)

lemma np_inject: "np p = np q \<longleftrightarrow> p = q"
  by (cases p; cases q) (simp_all add: np_def)

lemma set_dropna: "(k, p) \<in> set (dropna rs) \<longleftrightarrow> (k, np p) \<in> set rs"
proof (induction rs rule: dropna.induct)
  case 1
  then show ?case by simp
next
  case (2 l x rs)
  show ?case
  proof (cases "price_of x")
    case None
    then have "x \<noteq> np p" using price_of_np [of x p] by simp
    then show ?thesis using None "2.IH"(1) by simp
  next
    case (Some q)
    then have "x = np q" by (simp add: price_of_np)
    then show ?thesis using Some "2.IH"(2) by (auto simp: np_inject)
  qed
qed

lemma dropna_filter:
  "dropna rs = map (\<lambda>(l, x). (l, the (price_of x))) (filter (\<lambda>(l, x). x \<noteq> NaN) rs)"
proof (induction rs rule: dropna.induct)
  case 1
  then show ?case by simp
next
  case (2 l x rs)
  then show ?case by (cases x) (simp_all add: price_of_def)
qed

lemma mset_dropna_sort_index: "mset (dropna (sort_index rs)) = mset (dropna rs)"
  by (simp add: dropna_filter mset_sort_index)

subsection \<open>What a load returns\<close>

lemma load_body_listed_order: "load_body lib src = steps_in_listed_order lib src"
  unfolding load_body_def steps_in_listed_order_def
  by (simp add: sort_index_map Let_def split: sum.splits)

lemma price_column_InrD:
  assumes "price_column (rename_price df) = Inr price"
    and "''Close/Last'' \<in> set (map fst (others df))"
  shows "(''Close/Last'', price) \<in> set (others df)"
proof -
  let ?ren = "\<lambda>(n, c). (if n = ''Close/Last'' then ''Price'' else n, c :: column)"
  let ?fs = "filter (\<lambda>(n, c). n = ''Price'') (map ?ren (others df))"
  from assms(2) obtain c where c: "(''Close/Last'', c) \<in> set (others df)" by auto
  then have in_fs: "(''Price'', c) \<in> set ?fs" by force
  from assms(1) have "\<exists>n. ?fs = [(n, price)]"
    by (auto simp: price_column_def rename_price_def split: list.splits)
  then obtain n where "?fs = [(n, price)]" by blast
  with in_fs have "c = price" by simp
  with c show ?thesis by simp
qed

lemma load_body_InrD:
  assumes "load_body lib src = Inr df"
  shows "\<exists>t pos d price.
           src = Csv t \<and> date_cells t = Some (pos, d)
         \<and> price_column (rename_price (normalize_names lib
               \<lparr>Date = d, date_position = pos, others = value_columns t\<rparr>)) = Inr price
         \<and> (''Close/Last'', price) \<in> set (map (\<lambda>(n, c). (strip_title lib n, c)) (value_columns t))
         \<and> rows df = dropna (map (\<lambda>(l, c). (l, to_numeric lib c))
                          (sort_index (zip (labels d) (cells (strip_currency price)))))
         \<and> Returns df = None"
proof -
  from assms obtain f where f: "read_csv src = Inr f"
    by (auto simp: load_body_def split: sum.splits)
  then obtain t pos d where t: "src = Csv t" "date_cells t = Some (pos, d)"
    and fd: "f = \<lparr>Date = d, date_position = pos, others = value_columns t\<rparr>"
    by (auto simp: read_csv_def split: source.splits option.splits)
  let ?n = "normalize_names lib f"
  from assms f have cl: "''Close/Last'' \<in> set (column_names ?n)"
    by (auto simp: load_body_def require_close_last_def split: sum.splits if_splits)
  then have cl': "''Close/Last'' \<in> set (map fst (others ?n))"
    by (auto simp: column_names_def dest: in_set_takeD in_set_dropD)
  from assms f cl obtain price where
    pc: "price_column (rename_price ?n) = Inr price"
    and r: "rows df = dropna (map (\<lambda>(l, c). (l, to_numeric lib c))
                          (sort_index (zip (labels d) (cells (strip_currency price)))))"
    and rt: "Returns df = None"
    by (auto simp: load_body_def require_close_last_def Let_def set_index_def rename_price_def
          normalize_names_def fd split: sum.splits if_splits)
  have "(''Close/Last'', price) \<in> set (others ?n)"
    by (rule price_column_InrD [OF pc cl'])
  then have "(''Close/Last'', price) \<in> set (map (\<lambda>(n, c). (strip_title lib n, c)) (value_columns t))"
    by (simp add: normalize_names_def fd)
  with t pc r rt fd show ?thesis by blast
qed

lemma load_failure_ignores_dates:
  "load_body lib (Csv (t\<lparr>date_cells := Some (pos, d)\<rparr>)) = Inl e
   \<longleftrightarrow> load_body lib (Csv (t\<lparr>date_cells := Some (pos, d')\<rparr>)) = Inl e"
proof -
  have pc: "price_column \<lparr>Date = d, date_position = pos, others = os\<rparr>
          = price_column \<lparr>Date = d', date_position = pos, others = os\<rparr>" for os
    by (simp add: price_column_def)
  show ?thesis
    by (simp add: load_body_def read_csv_def require_close_last_def normalize_names_def
        column_names_def rename_price_def set_index_def Let_def pc split: sum.splits)
qed

lemma normalized_names:
  "column_names (normalize_names lib \<lparr>Date = d, date_position = pos, others = cs\<rparr>)
   = take pos (map (\<lambda>(n, c). strip_title lib n) cs) @ ''Date''
       # drop pos (map (\<lambda>(n, c). strip_title lib n) cs)"
  by (simp add: column_names_def normalize_names_def comp_def case_prod_unfold)

lemma load_body_missing_close_last:
  assumes d: "date_cells t = Some (pos, d)"
    and m: "''Close/Last'' \<notin> set (map (\<lambda>(n, c). strip_title lib n) (value_columns t))"
  shows "load_body lib (Csv t)
         = Inl (CloseLastNotFound (take pos (map (\<lambda>(n, c). strip_title lib n) (value_columns t))
                  @ ''Date'' # drop pos (map (\<lambda>(n, c). strip_title lib n) (value_columns t))))"
proof -
  let ?f = "\<lparr>Date = d, date_position = pos, others = value_columns t\<rparr>"
  let ?ns = "map (\<lambda>(n, c). strip_title lib n) (value_columns t)"
  have r: "read_csv (Csv t) = Inr ?f" using d by (simp add: read_csv_def)
  have n: "column_names (normalize_names lib ?f) = take pos ?ns @ ''Date'' # drop pos ?ns"
    by (rule normalized_names)
  have "''Close/Last'' \<notin> set (take pos ?ns)" "''Close/Last'' \<notin> set (drop pos ?ns)"
    using m by (auto dest: in_set_takeD in_set_dropD)
  then have "''Close/Last'' \<notin> set (column_names (normalize_names lib ?f))"
    unfolding n by simp
  then show ?thesis
    unfolding n [symmetric] by (simp add: load_body_def r require_close_last_def)
qed

lemma load_table_export:
  "load_body example_library (Csv table_export)
   = Inr \<lparr>rows = [(Stamp 2, Finite 7), (Stamp 3, Finite (2469 / 2))], Returns = None\<rparr>"
  by (simp add: table_export_def load_simps text_simps)

subsection \<open>The retained rows\<close>

text \<open>
  C2, as the code has it. A load that returns a frame has read a table with a Date column
  and taken its prices from the column whose normalized name is Close/Last. A row of the
  table is retained exactly when the number read from its price cell (the cell stripped of
  currency signs and separators when it is text) is not NaN: rows whose price is missing
  or unreadable are dropped, nothing is coerced to a price. The sign of the price is not
  looked at.
\<close>

theorem retained_rows_have_parsed_price:
  assumes "load_body lib src = Inr df"
  shows "\<exists>t pos d price.
           src = Csv t \<and> date_cells t = Some (pos, d)
         \<and> (''Close/Last'', price) \<in> set (map (\<lambda>(n, c). (strip_title lib n, c)) (value_columns t))
         \<and> (\<forall>l p. (l, p) \<in> set (rows df) \<longleftrightarrow> (l, np p) \<in> set (numeric_rows lib d price))
         \<and> (\<forall>l x. (l, x) \<in> set (numeric_rows lib d price) \<and> x \<noteq> NaN
                \<longrightarrow> (\<exists>p. x = np p \<and> (l, p) \<in> set (rows df)))"
proof -
  from load_body_InrD [OF assms] obtain t pos d price where
    t: "src = Csv t" "date_cells t = Some (pos, d)" and
    pc: "(''Close/Last'', price) \<in> set (map (\<lambda>(n, c). (strip_title lib n, c)) (value_columns t))" and
    r: "rows df = dropna (map (\<lambda>(l, c). (l, to_numeric lib c))
                          (sort_index (zip (labels d) (cells (strip_currency price)))))"
    by blast
  have s: "set (map (\<lambda>(l, c). (l, to_numeric lib c))
                 (sort_index (zip (labels d) (cells (strip_currency price)))))
        = set (numeric_rows lib d price)"
    by (simp add: numeric_rows_def set_sort_index)
  have iff: "(l, p) \<in> set (rows df) \<longleftrightarrow> (l, np p) \<in> set (numeric_rows lib d price)" for l p
  proof -
    have "(l, p) \<in> set (rows df)
          \<longleftrightarrow> (l, np p) \<in> set (map (\<lambda>(l, c). (l, to_numeric lib c))
                                  (sort_index (zip (labels d) (cells (strip_currency price)))))"
      unfolding r by (rule set_dropna)
    then show ?thesis unfolding s .
  qed
  have kept: "\<exists>p. x = np p \<and> (l, p) \<in> set (rows df)"
    if "(l, x) \<in> set (numeric_rows lib d price)" "x \<noteq> NaN" for l x
  proof -
    from that(2) obtain p where p: "price_of x = Some p"
      by (cases x) (simp_all add: price_of_def)
    then have "x = np p" by (simp add: price_of_np)
    with that(1) iff show ?thesis by blast
  qed
  from t pc iff kept show ?thesis by blast
qed

theorem retained_rows_have_parsed_price_witness:
  "\<exists>t pos d price.
      Csv table_export = Csv t \<and> date_cells t = Some (pos, d)
    \<and> (''Close/Last'', price)
         \<in> set (map (\<lambda>(n, c). (strip_title example_library n, c)) (value_columns t))
    \<and> (\<forall>l p. (l, p) \<in> set [(Stamp 2, Finite 7), (Stamp 3, Finite (2469 / 2))]
            \<longleftrightarrow> (l, np p) \<in> set (numeric_rows example_library d price))"
proof -
  let ?df = "\<lparr>rows = [(Stamp 2, Finite 7), (Stamp 3, Finite (2469 / 2))], Returns = None\<rparr>"
  have r: "rows ?df = [(Stamp 2, Finite 7), (Stamp 3, Finite (2469 / 2))]" by simp
  from retained_rows_have_parsed_price [OF load_table_export]
  obtain t pos d price where
    "Csv table_export = Csv t" "date_cells t = Some (pos, d)"
    "(''Close/Last'', price)
       \<in> set (map (\<lambda>(n, c). (strip_title example_library n, c)) (value_columns t))"
    "\<forall>l p. (l, p) \<in> set (rows ?df) \<longleftrightarrow> (l, np p) \<in> set (numeric_rows example_library d price)"
    by blast
  then show ?thesis unfolding r by blast
qed

text \<open>The claim as the specification words it fails: a zero and a negative price stay.\<close>

theorem nonpositive_prices_retained:
  "load_data_from_csv open_console example_library
     (Csv \<lparr>date_cells = Some (0, Timestamps [1, 2, 3]),
           value_columns = [(''Close/Last'', NumCol [Fin (- 5), Fin 0, Fin 3])]\<rparr>)
   = Returned (Some \<lparr>rows = [(Stamp 1, Finite (- 5)), (Stamp 2, Finite 0), (Stamp 3, Finite 3)],
                     Returns = None\<rparr>, [])"
  by (simp add: load_data_from_csv_def load_simps text_simps)

subsection \<open>The steps of the normalization\<close>

text \<open>
  C3, as the code has it. The dates are read first, by the reader, from the column headed
  exactly \<open>Date\<close>: a file without it fails there, and dates that cannot be read never
  fail the load (whether the load fails, and with what, does not depend on the Date
  cells). After the read the loader does what the listed steps (1) to (4) and (6) to (8)
  do in the listed order, the source sorting before it makes the price numeric, which
  gives the same frame:
  \<^item> the names are normalized, and when none becomes Close/Last the load fails with the
    error that lists the normalized names in the order of the file;
  \<^item> a load that succeeds took the column whose normalized name is Close/Last, removed
    the signs \<open>$\<close> and \<open>,\<close> from its cells when it is text and read each cell as a
    number, an unreadable one as NaN;
  \<^item> the frame returned holds the rows whose number is not NaN, each once, in ascending
    order of the label, and has no Returns column yet.
  The text \<open>$1,234.50\<close> loses its sign and comma and reads as 1234.50.
\<close>

theorem load_steps_in_listed_order:
  "load_body lib src = steps_in_listed_order lib src
   \<and> (load_body lib (Csv (t\<lparr>date_cells := Some (pos, DateText ss)\<rparr>)) = Inl e
        \<longleftrightarrow> load_body lib (Csv (t\<lparr>date_cells := Some (pos, Timestamps ts)\<rparr>)) = Inl e)
   \<and> load_body lib (Csv (t\<lparr>date_cells := None\<rparr>)) = Inl MissingParseDates
   \<and> (''Close/Last'' \<notin> set (map (\<lambda>(n, c). strip_title lib n) (value_columns t))
        \<longrightarrow> load_body lib (Csv (t\<lparr>date_cells := Some (pos, d)\<rparr>))
            = Inl (CloseLastNotFound
                    (take pos (map (\<lambda>(n, c). strip_title lib n) (value_columns t)) @ ''Date''
                       # drop pos (map (\<lambda>(n, c). strip_title lib n) (value_columns t)))))
   \<and> (load_body lib src = Inr df
        \<longrightarrow> (\<exists>t' pos' d' price.
               src = Csv t' \<and> date_cells t' = Some (pos', d')
             \<and> (''Close/Last'', price)
                  \<in> set (map (\<lambda>(n, c). (strip_title lib n, c)) (value_columns t'))
             \<and> mset (rows df) = mset (dropna (numeric_rows lib d' price))
             \<and> sorted_wrt label_le (Index df)
             \<and> Returns df = None))
   \<and> strip_currency (ObjCol [''$1,234.50'']) = ObjCol [''1234.50'']
   \<and> decimal_number ''1234.50'' = Fin (2469 / 2)"
proof -
  have order: "load_body lib src = steps_in_listed_order lib src"
    by (rule load_body_listed_order)
  have dates: "load_body lib (Csv (t\<lparr>date_cells := Some (pos, DateText ss)\<rparr>)) = Inl e
        \<longleftrightarrow> load_body lib (Csv (t\<lparr>date_cells := Some (pos, Timestamps ts)\<rparr>)) = Inl e"
    by (rule load_failure_ignores_dates)
  have nodate: "load_body lib (Csv (t\<lparr>date_cells := None\<rparr>)) = Inl MissingParseDates"
    by (simp add: load_body_def read_csv_def)
  have noclose: "load_body lib (Csv (t\<lparr>date_cells := Some (pos, d)\<rparr>))
            = Inl (CloseLastNotFound
                    (take pos (map (\<lambda>(n, c). strip_title lib n) (value_columns t)) @ ''Date''
                       # drop pos (map (\<lambda>(n, c). strip_title lib n) (value_columns t))))"
    if "''Close/Last'' \<notin> set (map (\<lambda>(n, c). strip_title lib n) (value_columns t))"
    using load_body_missing_close_last [of "t\<lparr>date_cells := Some (pos, d)\<rparr>" pos d lib] that
    by simp
  have success: "\<exists>t' pos' d' price.
               src = Csv t' \<and> date_cells t' = Some (pos', d')
             \<and> (''Close/Last'', price)
                  \<in> set (map (\<lambda>(n, c). (strip_title lib n, c)) (value_columns t'))
             \<and> mset (rows df) = mset (dropna (numeric_rows lib d' price))
             \<and> sorted_wrt label_le (Index df)
             \<and> Returns df = None"
    if ok: "load_body lib src = Inr df"
  proof -
    from load_body_InrD [OF ok] obtain t' pos' d' price where
      t: "src = Csv t'" "date_cells t' = Some (pos', d')" and
      pc: "(''Close/Last'', price)
             \<in> set (map (\<lambda>(n, c). (strip_title lib n, c)) (value_columns t'))" and
      r: "rows df = dropna (map (\<lambda>(l, c). (l, to_numeric lib c))
                            (sort_index (zip (labels d') (cells (strip_currency price)))))" and
      rt: "Returns df = None"
      by blast
    have r': "rows df = dropna (sort_index (numeric_rows lib d' price))"
      unfolding r numeric_rows_def by (simp only: sort_index_map)
    have m: "mset (rows df) = mset (dropna (numeric_rows lib d' price))"
      unfolding r' by (rule mset_dropna_sort_index)
    have "sorted_wrt label_le (map fst (dropna (sort_index (numeric_rows lib d' price))))"
      by (intro sorted_dropna sorted_sort_index)
    then have s: "sorted_wrt label_le (Index df)"
      by (simp add: Index_def r')
    from t pc m s rt show ?thesis by blast
  qed
  have strip: "strip_currency (ObjCol [''$1,234.50'']) = ObjCol [''1234.50'']"
    by (simp add: strip_currency_def remove_char_def)
  have num: "decimal_number ''1234.50'' = Fin (2469 / 2)"
    by (simp add: text_simps)
  from order dates nodate noclose success strip num show ?thesis by blast
qed

theorem load_steps_in_listed_order_witness:
  "steps_in_listed_order example_library (Csv table_export)
     = Inr \<lparr>rows = [(Stamp 2, Finite 7), (Stamp 3, Finite (2469 / 2))], Returns = None\<rparr>
   \<and> (\<exists>t' pos' d' price.
         Csv table_export = Csv t' \<and> date_cells t' = Some (pos', d')
       \<and> mset [(Stamp 2, Finite 7), (Stamp 3, Finite (2469 / 2))]
           = mset (dropna (numeric_rows example_library d' price))
       \<and> sorted_wrt label_le [Stamp 2, Stamp 3])"
proof -
  let ?df = "\<lparr>rows = [(Stamp 2, Finite 7), (Stamp 3, Finite (2469 / 2))], Returns = None\<rparr>"
  note inst = load_steps_in_listed_order
    [where lib = example_library and src = "Csv table_export" and df = "?df" and t = table_export
       and pos = "0" and ss = "[]" and ts = "[]" and e = FileNotFoundError and d = "Timestamps []"]
  from inst have 1: "load_body example_library (Csv table_export)
                    = steps_in_listed_order example_library (Csv table_export)"
    by blast
  from inst load_table_export have 2: "\<exists>t' pos' d' price.
         Csv table_export = Csv t' \<and> date_cells t' = Some (pos', d')
       \<and> (''Close/Last'', price)
            \<in> set (map (\<lambda>(n, c). (strip_title example_library n, c)) (value_columns t'))
       \<and> mset (rows ?df) = mset (dropna (numeric_rows example_library d' price))
       \<and> sorted_wrt label_le (Index ?df)
       \<and> Returns ?df = None"
    by blast
  from 1 load_table_export have "steps_in_listed_order example_library (Csv table_export) = Inr ?df"
    by simp
  moreover from 2 have "\<exists>t' pos' d' price.
         Csv table_export = Csv t' \<and> date_cells t' = Some (pos', d')
       \<and> mset [(Stamp 2, Finite 7), (Stamp 3, Finite (2469 / 2))]
           = mset (dropna (numeric_rows example_library d' price))
       \<and> sorted_wrt label_le [Stamp 2, Stamp 3]"
    by (simp add: Index_def) blast
  ultimately show ?thesis by blast
qed

text \<open>The claim as worded fails at step (5): a Date column that is no date loads.\<close>

theorem unparseable_dates_still_load:
  "load_data_from_csv open_console example_library
     (Csv \<lparr>date_cells = Some (0, DateText [''soon'', ''later'']),
           value_columns = [(''Close/Last'', ObjCol [''$1,234.50'', ''$7''])]\<rparr>)
   = Returned (Some \<lparr>rows = [(Text ''later'', Finite 7), (Text ''soon'', Finite (2469 / 2))],
                     Returns = None\<rparr>, [])"
  by (simp add: load_data_from_csv_def load_simps text_simps)

subsection \<open>Failures of the load\<close>




text \<open>
  C7, as the code has it. For every table that has a column headed exactly \<open>Date\<close>
  and no column whose normalized name is Close/Last, the load returns no frame and leaves
  the dictionary as it was; when the console takes the two lines, the loader prints the
  error that lists the normalized column names in the order of the file and returns None,
  and choice 1 adds that there is no valid price data.
\<close>

theorem missing_close_last_schema_error:
  assumes d: "date_cells t = Some (pos, d)"
    and m: "''Close/Last'' \<notin> set (map (\<lambda>(n, c). strip_title lib n) (value_columns t))"
  shows "(\<forall>df out. load_data_from_csv con lib (Csv t) \<noteq> Returned (Some df, out))
       \<and> (\<forall>c out. load_coin con lib coins ticker (Csv t) = Returned (c, out) \<longrightarrow> c = coins)
       \<and> (con (FailedToLoad (CloseLastNotFound
                 (take pos (map (\<lambda>(n, c). strip_title lib n) (value_columns t)) @ ''Date''
                    # drop pos (map (\<lambda>(n, c). strip_title lib n) (value_columns t))))) = None
           \<longrightarrow> load_data_from_csv con lib (Csv t)
                 = Returned (None, [FailedToLoad (CloseLastNotFound
                     (take pos (map (\<lambda>(n, c). strip_title lib n) (value_columns t)) @ ''Date''
                        # drop pos (map (\<lambda>(n, c). strip_title lib n) (value_columns t))))])
             \<and> (con NoValidPriceData = None
                 \<longrightarrow> load_coin con lib coins ticker (Csv t)
                       = Returned (coins, [FailedToLoad (CloseLastNotFound
                           (take pos (map (\<lambda>(n, c). strip_title lib n) (value_columns t)) @ ''Date''
                              # drop pos (map (\<lambda>(n, c). strip_title lib n) (value_columns t)))),
                                           NoValidPriceData])))"
proof -
  let ?names = "take pos (map (\<lambda>(n, c). strip_title lib n) (value_columns t)) @ ''Date''
                  # drop pos (map (\<lambda>(n, c). strip_title lib n) (value_columns t))"
  have b: "load_body lib (Csv t) = Inl (CloseLastNotFound ?names)"
    by (rule load_body_missing_close_last [OF d m])
  have l: "load_data_from_csv con lib (Csv t) = say con (FailedToLoad (CloseLastNotFound ?names)) None"
    by (simp add: load_data_from_csv_def b)
  have 1: "\<forall>df out. load_data_from_csv con lib (Csv t) \<noteq> Returned (Some df, out)"
    unfolding l by (simp add: say_def split: option.splits)
  have 2: "\<forall>c out. load_coin con lib coins ticker (Csv t) = Returned (c, out) \<longrightarrow> c = coins"
    unfolding load_coin_def l
    by (auto simp: say_def split: option.splits)
  have 3: "load_data_from_csv con lib (Csv t) = Returned (None, [FailedToLoad (CloseLastNotFound ?names)])"
    if "con (FailedToLoad (CloseLastNotFound ?names)) = None"
    unfolding l using that by (simp add: say_def)
  have 4: "load_coin con lib coins ticker (Csv t)
           = Returned (coins, [FailedToLoad (CloseLastNotFound ?names), NoValidPriceData])"
    if "con (FailedToLoad (CloseLastNotFound ?names)) = None" "con NoValidPriceData = None"
    unfolding load_coin_def l using that by (simp add: say_def)
  from 1 2 3 4 show ?thesis by blast
qed

theorem missing_close_last_schema_error_witness:
  "load_data_from_csv open_console example_library (Csv table_without_close)
       = Returned (None, [FailedToLoad (CloseLastNotFound [''Date'', ''Open''])])
   \<and> load_coin open_console example_library disjoint_coins ''BTC'' (Csv table_without_close)
       = Returned (disjoint_coins, [FailedToLoad (CloseLastNotFound [''Date'', ''Open'']), NoValidPriceData])"
proof -
  have d: "date_cells table_without_close = Some (0, Timestamps [1, 2])"
    by (simp add: table_without_close_def)
  have n: "map (\<lambda>(n, c). strip_title example_library n) (value_columns table_without_close) = [''Open'']"
    by (simp add: table_without_close_def text_simps)
  have m: "''Close/Last'' \<notin> set (map (\<lambda>(n, c). strip_title example_library n)
                                   (value_columns table_without_close))"
    unfolding n by simp
  show ?thesis
    using missing_close_last_schema_error
            [OF d m, where con = open_console and coins = disjoint_coins and ticker = "''BTC''"]
    unfolding n by (simp add: open_console_def)
qed

text \<open>
  The claim as worded fails for a table whose date column is headed \<open>date\<close>:
  normalization would make the name \<open>Date\<close>, but the reader looks for the column
  before that and raises first, and the error printed lists no column.
\<close>

theorem missing_date_masks_schema_error:
  "''Close/Last'' \<notin> set (map (\<lambda>(n, c). strip_title example_library n)
                            [(''date'', ObjCol [''2024-01-02'']), (''Open'', NumCol [Fin 1])])
   \<and> load_data_from_csv open_console example_library
        (Csv \<lparr>date_cells = None,
              value_columns = [(''date'', ObjCol [''2024-01-02'']), (''Open'', NumCol [Fin 1])]\<rparr>)
       = Returned (None, [FailedToLoad MissingParseDates])"
  by (simp add: load_data_from_csv_def say_def open_console_def load_simps text_simps)

section \<open>Properties of the correlation\<close>

subsection \<open>The matrix\<close>




lemma pearson_alt:
  "pearson x y =
     (if finite_pairs x y = [] \<or> sqrt (ssq_x (finite_pairs x y) * ssq_y (finite_pairs x y)) = 0 then NaN
      else Fin (cov_xy (finite_pairs x y) / sqrt (ssq_x (finite_pairs x y) * ssq_y (finite_pairs x y))))"
  by (auto simp: pearson_def Let_def ssq_x_def ssq_y_def cov_xy_def)








lemma ssq_x_nonneg: "0 \<le> ssq_x ps"
  unfolding ssq_x_def by (rule sum_list_nonneg) auto

lemma ssq_x_zero_iff: "ssq_x ps = 0 \<longleftrightarrow> (\<forall>p\<in>set ps. fst p = mean_of (map fst ps))"
proof -
  define m where "m = mean_of (map fst ps)"
  have "sum_list (map (\<lambda>(a, b). (a - m) * (a - m)) ps) = 0
        \<longleftrightarrow> (\<forall>t\<in>set (map (\<lambda>(a, b). (a - m) * (a - m)) ps). t = 0)"
    by (rule sum_list_nonneg_eq_0_iff) auto
  also have "\<dots> \<longleftrightarrow> (\<forall>p\<in>set ps. fst p = m)"
    by (auto simp: case_prod_unfold)
  finally show ?thesis by (simp add: ssq_x_def m_def)
qed

lemma sum_list_const:
  fixes xs :: "real list"
  shows "\<forall>a\<in>set xs. a = c \<Longrightarrow> sum_list xs = real (length xs) * c"
  by (induction xs) (simp_all add: algebra_simps)

lemma mean_of_const:
  assumes "xs \<noteq> []" and "\<forall>a\<in>set xs. a = c"
  shows "mean_of xs = c"
proof -
  have "sum_list xs = real (length xs) * c" by (rule sum_list_const [OF assms(2)])
  moreover have "real (length xs) \<noteq> 0" using assms(1) by simp
  ultimately show ?thesis unfolding mean_of_def by simp
qed

lemma ssq_x_const:
  assumes "\<forall>p\<in>set ps. fst p = c"
  shows "ssq_x ps = 0"
proof (cases "ps = []")
  case True
  then show ?thesis by (simp add: ssq_x_def)
next
  case False
  have "mean_of (map fst ps) = c"
  proof (rule mean_of_const)
    show "map fst ps \<noteq> []" using False by simp
    show "\<forall>a\<in>set (map fst ps). a = c" using assms by simp
  qed
  then have "\<forall>p\<in>set ps. fst p = mean_of (map fst ps)" using assms by simp
  then show ?thesis unfolding ssq_x_zero_iff .
qed

lemma ssq_x_zero_iff_const: "ssq_x ps = 0 \<longleftrightarrow> (\<forall>p\<in>set ps. \<forall>q\<in>set ps. fst p = fst q)"
proof
  assume "ssq_x ps = 0"
  then have m: "\<forall>p\<in>set ps. fst p = mean_of (map fst ps)" unfolding ssq_x_zero_iff .
  show "\<forall>p\<in>set ps. \<forall>q\<in>set ps. fst p = fst q"
  proof (intro ballI)
    fix p q assume "p \<in> set ps" "q \<in> set ps"
    then have "fst p = mean_of (map fst ps)" "fst q = mean_of (map fst ps)" using m by blast+
    then show "fst p = fst q" by (rule trans [OF _ sym])
  qed
next
  assume eq: "\<forall>p\<in>set ps. \<forall>q\<in>set ps. fst p = fst q"
  show "ssq_x ps = 0"
  proof (cases ps)
    case Nil
    then show ?thesis by (simp add: ssq_x_def)
  next
    case (Cons p qs)
    then have "p \<in> set ps" by simp
    with eq have "\<forall>q\<in>set ps. fst q = fst p" by blast
    then show ?thesis by (rule ssq_x_const)
  qed
qed


lemma set_map_filter: "set (List.map_filter f xs) = {y. \<exists>x\<in>set xs. f x = Some y}"
  by (induction xs) (auto simp: List.map_filter_simps split: option.splits)

lemma both_finite_Some: "both_finite z = Some (a, b) \<longleftrightarrow> z = (Fin a, Fin b)"
  by (cases z rule: both_finite.cases) auto

lemma set_finite_pairs_diag: "set (finite_pairs x x) = {(a, a) | a. Fin a \<in> set x}"
proof -
  have "set (zip x x) = {(v, v) | v. v \<in> set x}"
    by (induction x) auto
  then show ?thesis
    unfolding finite_pairs_def set_map_filter by (auto simp: both_finite_Some)
qed

lemma finite_pairs_diag_fst_snd: "map snd (finite_pairs x x) = map fst (finite_pairs x x)"
  using set_finite_pairs_diag [of x] by (intro map_ext [symmetric]) auto

lemma pearson_diag:
  "pearson x x = (if \<exists>a b. Fin a \<in> set x \<and> Fin b \<in> set x \<and> a \<noteq> b then Fin 1 else NaN)"
proof -
  let ?ps = "finite_pairs x x"
  have d: "\<forall>p\<in>set ?ps. snd p = fst p" using set_finite_pairs_diag [of x] by auto
  have fs: "map snd ?ps = map fst ?ps" by (rule finite_pairs_diag_fst_snd)
  have y: "ssq_y ?ps = ssq_x ?ps"
    unfolding ssq_y_def ssq_x_def fs using d by (intro arg_cong [where f = sum_list] map_cong) auto
  have c: "cov_xy ?ps = ssq_x ?ps"
    unfolding cov_xy_def ssq_x_def fs using d by (intro arg_cong [where f = sum_list] map_cong) auto
  have s: "sqrt (ssq_x ?ps * ssq_x ?ps) = ssq_x ?ps" using ssq_x_nonneg [of ?ps] by simp
  have z: "ssq_x ?ps = 0 \<longleftrightarrow> \<not> (\<exists>a b. Fin a \<in> set x \<and> Fin b \<in> set x \<and> a \<noteq> b)"
    unfolding ssq_x_zero_iff_const set_finite_pairs_diag by auto
  have e: "?ps = [] \<Longrightarrow> ssq_x ?ps = 0" by (simp add: ssq_x_def)
  show ?thesis
    unfolding pearson_alt y c s using z e by auto
qed





subsection \<open>When a matrix is drawn, and of what\<close>

lemma dict_set_append: "k \<notin> fst ` set kvs \<Longrightarrow> dict_set kvs k v = kvs @ [(k, v)]"
  by (induction kvs) auto

lemma reindex_self:
  assumes "distinct idx" and "length vals = length idx"
  shows "reindex idx vals idx = vals"
proof (rule nth_equalityI)
  show "length (reindex idx vals idx) = length vals"
    using assms by (simp add: reindex_def)
next
  fix i assume "i < length (reindex idx vals idx)"
  then have i: "i < length idx" by (simp add: reindex_def)
  have "map_of (zip idx vals) (idx ! i) = Some (vals ! i)"
    using assms i by (intro map_of_zip_nth) simp_all
  then show "reindex idx vals idx ! i = vals ! i"
    using i by (simp add: reindex_def)
qed

lemma reindex_disjoint:
  assumes "set idx \<inter> set target = {}"
  shows "reindex idx vals target = replicate (length target) NaN"
proof -
  have "map_of (zip idx vals) l = None" if "l \<in> set target" for l
  proof -
    from that assms have "l \<notin> set idx" by auto
    then have "l \<notin> fst ` set (zip idx vals)"
      by (auto dest: set_zip_leftD)
    then show ?thesis by (simp add: map_of_eq_None_iff)
  qed
  then show ?thesis
    by (auto simp: reindex_def intro!: nth_equalityI)
qed

lemma assign_column_aligned:
  assumes "c_index cr \<noteq> []" and "distinct idx" and "length vals = length idx"
    and "name \<notin> fst ` set (c_columns cr)"
  shows "assign_column cr name idx vals
         = Inr (cr\<lparr>c_columns := c_columns cr @ [(name, reindex idx vals (c_index cr))]\<rparr>)"
proof (cases "idx = c_index cr")
  case True
  then have "reindex idx vals (c_index cr) = vals"
    using reindex_self [OF assms(2,3)] by simp
  then show ?thesis
    using assms True by (simp add: assign_column_def dict_set_append)
next
  case False
  then show ?thesis
    using assms by (simp add: assign_column_def dict_set_append)
qed

lemma stored_frameD:
  assumes "stored_frame df"
  shows "distinct (Index df)" and "Returns df = Some (returns_of df)"
    and "length (returns_of df) = length (Index df)"
  using assms by (auto simp: stored_frame_def returns_of_def Index_def split: option.splits)

lemma nonempty_coins_Cons:
  "nonempty_coins ((name, df) # rest)
   = (if empty_frame df then nonempty_coins rest else (name, df) # nonempty_coins rest)"
  by (simp add: nonempty_coins_def)

lemma combine_returns_aligned:
  assumes "c_index cr \<noteq> []"
    and "distinct (map fst coins)"
    and "fst ` set coins \<inter> fst ` set (c_columns cr) = {}"
    and "\<forall>(n, df)\<in>set (nonempty_coins coins). stored_frame df"
  shows "combine_returns coins cr
         = Inr (cr\<lparr>c_columns := c_columns cr
                   @ map (\<lambda>(n, df). (n, reindex (Index df) (returns_of df) (c_index cr)))
                         (nonempty_coins coins)\<rparr>)"
  using assms
proof (induction coins arbitrary: cr)
  case Nil
  then show ?case by (simp add: nonempty_coins_def)
next
  case (Cons c coins)
  obtain name df where c: "c = (name, df)" by (cases c)
  have d: "distinct (map fst coins)" using Cons.prems(2) by simp
  have fresh: "fst ` set coins \<inter> fst ` set (c_columns cr) = {}"
    using Cons.prems(3) by auto
  show ?case
  proof (cases "empty_frame df")
    case True
    have "\<forall>(n, df)\<in>set (nonempty_coins coins). stored_frame df"
      using Cons.prems(4) True by (simp add: c nonempty_coins_Cons)
    from Cons.IH [OF Cons.prems(1) d fresh this] True show ?thesis
      by (simp add: c nonempty_coins_Cons)
  next
    case False
    have st: "stored_frame df" and rest: "\<forall>(n, df)\<in>set (nonempty_coins coins). stored_frame df"
      using Cons.prems(4) False by (simp_all add: c nonempty_coins_Cons)
    have nm: "name \<notin> fst ` set (c_columns cr)" using Cons.prems(3) by (auto simp: c)
    let ?col = "(name, reindex (Index df) (returns_of df) (c_index cr))"
    let ?cr = "cr\<lparr>c_columns := c_columns cr @ [?col]\<rparr>"
    have a: "assign_column cr name (Index df) (returns_of df) = Inr ?cr"
      by (rule assign_column_aligned [OF Cons.prems(1) stored_frameD(1) [OF st]
                stored_frameD(3) [OF st] nm])
    have i: "c_index ?cr \<noteq> []" using Cons.prems(1) by simp
    have "name \<notin> fst ` set coins" using Cons.prems(2) by (simp add: c)
    then have f: "fst ` set coins \<inter> fst ` set (c_columns ?cr) = {}"
      using fresh by auto
    from Cons.IH [OF i d f rest] a False stored_frameD(2) [OF st] show ?thesis
      by (simp add: c nonempty_coins_Cons)
  qed
qed

lemma combine_returns_from_empty:
  assumes "distinct (map fst coins)"
    and "\<forall>(n, df)\<in>set (nonempty_coins coins). stored_frame df"
    and "nonempty_coins coins = (name0, df0) # others0"
  shows "combine_returns coins \<lparr>c_index = [], c_columns = []\<rparr>
         = Inr \<lparr>c_index = Index df0,
                c_columns = map (\<lambda>(n, df). (n, reindex (Index df) (returns_of df) (Index df0)))
                                (nonempty_coins coins)\<rparr>"
  using assms
proof (induction coins)
  case Nil
  then show ?case by (simp add: nonempty_coins_def)
next
  case (Cons c coins)
  obtain name df where c: "c = (name, df)" by (cases c)
  have d: "distinct (map fst coins)" using Cons.prems(1) by simp
  show ?case
  proof (cases "empty_frame df")
    case True
    have "\<forall>(n, df)\<in>set (nonempty_coins coins). stored_frame df"
      "nonempty_coins coins = (name0, df0) # others0"
      using Cons.prems(2,3) True by (simp_all add: c nonempty_coins_Cons)
    from Cons.IH [OF d this] True show ?thesis
      by (simp add: c nonempty_coins_Cons)
  next
    case False
    have first: "name0 = name" "df0 = df" and tl: "others0 = nonempty_coins coins"
      using Cons.prems(3) False by (simp_all add: c nonempty_coins_Cons)
    have st: "stored_frame df" and rest: "\<forall>(n, df)\<in>set (nonempty_coins coins). stored_frame df"
      using Cons.prems(2) False by (simp_all add: c nonempty_coins_Cons)
    have ne: "Index df \<noteq> []" using False by (simp add: empty_frame_def Index_def)
    let ?cr = "\<lparr>c_index = Index df, c_columns = [(name, returns_of df)]\<rparr>"
    have a: "assign_column \<lparr>c_index = [], c_columns = []\<rparr> name (Index df) (returns_of df) = Inr ?cr"
      by (simp add: assign_column_def)
    have self: "reindex (Index df) (returns_of df) (Index df) = returns_of df"
      by (rule reindex_self [OF stored_frameD(1) [OF st] stored_frameD(3) [OF st]])
    have i: "c_index ?cr \<noteq> []" using ne by simp
    have "name \<notin> fst ` set coins" using Cons.prems(1) by (simp add: c)
    then have f: "fst ` set coins \<inter> fst ` set (c_columns ?cr) = {}" by simp
    from combine_returns_aligned [OF i d f rest] a False stored_frameD(2) [OF st] self first
    show ?thesis
      by (simp add: c nonempty_coins_Cons)
  qed
qed

lemma combine_returns_all_empty:
  "nonempty_coins coins = [] \<Longrightarrow> combine_returns coins cr = Inr cr"
proof (induction coins)
  case Nil
  then show ?case by simp
next
  case (Cons c coins)
  obtain name df where c: "c = (name, df)" by (cases c)
  from Cons.prems have e: "empty_frame df" and r: "nonempty_coins coins = []"
    by (simp_all add: c nonempty_coins_Cons split: if_splits)
  from Cons.IH [OF r] e show ?case by (simp add: c)
qed

lemma finite_pairs_all_NaN: "finite_pairs x (replicate n NaN) = []"
proof (induction x arbitrary: n)
  case Nil
  then show ?case by (simp add: finite_pairs_def List.map_filter_simps)
next
  case (Cons a x)
  show ?case
  proof (cases n)
    case 0
    then show ?thesis by (simp add: finite_pairs_def List.map_filter_simps)
  next
    case (Suc k)
    have "both_finite (a, NaN) = None" by (cases a) simp_all
    then show ?thesis
      using Cons [of k] Suc by (simp add: finite_pairs_def List.map_filter_simps)
  qed
qed

lemma finite_pairs_NaN_all: "finite_pairs (replicate n NaN) x = []"
proof (induction x arbitrary: n)
  case Nil
  then show ?case by (simp add: finite_pairs_def List.map_filter_simps)
next
  case (Cons a x)
  show ?case
  proof (cases n)
    case 0
    then show ?thesis by (simp add: finite_pairs_def List.map_filter_simps)
  next
    case (Suc k)
    then show ?thesis
      using Cons [of k] by (simp add: finite_pairs_def List.map_filter_simps)
  qed
qed

lemma pearson_no_shared_row: "finite_pairs x y = [] \<Longrightarrow> pearson x y = NaN"
  by (simp add: pearson_def)

text \<open>
  C5, as the code has it. With fewer than 2 coins nothing is computed and the message
  that two are needed is given; with 2 or more coins that all have no rows nothing is
  computed and the message that there is no valid data is given; neither is an error.
  With 2 or more coins of which at least one has rows, the coins being stored frames
  under distinct keys, a matrix is drawn: its labels are the coins that have rows and it
  is the correlation of their returns aligned on the dates of the first of them. A coin
  that shares no date with the first has only NaN there, and every entry of the matrix
  that it takes part in is NaN.
\<close>

theorem correlation_outcome:
  "(length coins < 2 \<longrightarrow> plot_correlation coins = Returned [NeedTwoCoins])
   \<and> (2 \<le> length coins \<and> nonempty_coins coins = []
        \<longrightarrow> plot_correlation coins = Returned [NoValidCorrelationData])
   \<and> (2 \<le> length coins \<and> nonempty_coins coins \<noteq> [] \<and> distinct (map fst coins)
        \<and> (\<forall>(n, df)\<in>set (nonempty_coins coins). stored_frame df)
        \<longrightarrow> plot_correlation coins
            = Returned [Heatmap (map fst (nonempty_coins coins)) (corr (aligned_returns coins))])
   \<and> (set idx \<inter> set target = {}
        \<longrightarrow> reindex idx vals target = replicate (length target) NaN)
   \<and> pearson x (replicate n NaN) = NaN
   \<and> pearson (replicate n NaN) x = NaN"
proof (intro conjI impI)
  assume "length coins < 2"
  then show "plot_correlation coins = Returned [NeedTwoCoins]" by (simp add: plot_correlation_def)
next
  assume a: "2 \<le> length coins \<and> nonempty_coins coins = []"
  then have "combine_returns coins \<lparr>c_index = [], c_columns = []\<rparr> = Inr \<lparr>c_index = [], c_columns = []\<rparr>"
    by (intro combine_returns_all_empty) simp
  then show "plot_correlation coins = Returned [NoValidCorrelationData]"
    using a by (simp add: plot_correlation_def combined_empty_def)
next
  assume a: "2 \<le> length coins \<and> nonempty_coins coins \<noteq> [] \<and> distinct (map fst coins)
        \<and> (\<forall>(n, df)\<in>set (nonempty_coins coins). stored_frame df)"
  then obtain name0 df0 others0 where ne: "nonempty_coins coins = (name0, df0) # others0"
    by (cases "nonempty_coins coins") auto
  let ?cols = "map (\<lambda>(n, df). (n, reindex (Index df) (returns_of df) (Index df0))) (nonempty_coins coins)"
  have c: "combine_returns coins \<lparr>c_index = [], c_columns = []\<rparr>
           = Inr \<lparr>c_index = Index df0, c_columns = ?cols\<rparr>"
    using a by (intro combine_returns_from_empty [OF _ _ ne]) simp_all
  have "(name0, df0) \<in> set (nonempty_coins coins)" using ne by simp
  then have "\<not> empty_frame df0" by (simp add: nonempty_coins_def)
  then have i: "Index df0 \<noteq> []" by (simp add: empty_frame_def Index_def)
  have names: "map fst ?cols = map fst (nonempty_coins coins)"
    by (simp add: comp_def case_prod_unfold)
  have cols: "map snd ?cols = aligned_returns coins"
    using ne by (simp add: aligned_returns_def comp_def case_prod_unfold)
  have "\<not> combined_empty \<lparr>c_index = Index df0, c_columns = ?cols\<rparr>"
    using i ne by (simp add: combined_empty_def)
  then show "plot_correlation coins
            = Returned [Heatmap (map fst (nonempty_coins coins)) (corr (aligned_returns coins))]"
    using a c names cols by (simp add: plot_correlation_def)
next
  assume "set idx \<inter> set target = {}"
  then show "reindex idx vals target = replicate (length target) NaN"
    by (rule reindex_disjoint)
next
  show "pearson x (replicate n NaN) = NaN"
    by (rule pearson_no_shared_row [OF finite_pairs_all_NaN])
next
  show "pearson (replicate n NaN) x = NaN"
    by (rule pearson_no_shared_row [OF finite_pairs_NaN_all])
qed

theorem correlation_outcome_witness:
  "plot_correlation disjoint_coins
   = Returned [Heatmap [''BTC'', ''ETH'']
                (corr [[NaN, Fin (1 / 10), Fin (- 1 / 10)], replicate 3 NaN])]"
proof -
  have n: "nonempty_coins disjoint_coins = disjoint_coins"
    by (simp add: nonempty_coins_def disjoint_coins_def empty_frame_def)
  have h: "2 \<le> length disjoint_coins \<and> nonempty_coins disjoint_coins \<noteq> []
     \<and> distinct (map fst disjoint_coins)
     \<and> (\<forall>(n, df)\<in>set (nonempty_coins disjoint_coins). stored_frame df)"
    unfolding n by (simp add: disjoint_coins_def stored_frame_def Index_def)
  have a: "aligned_returns disjoint_coins = [[NaN, Fin (1 / 10), Fin (- 1 / 10)], replicate 3 NaN]"
    unfolding aligned_returns_def n
    by (simp add: disjoint_coins_def reindex_def Index_def returns_of_def numeral_3_eq_3)
  have m: "map fst (nonempty_coins disjoint_coins) = [''BTC'', ''ETH'']"
    unfolding n by (simp add: disjoint_coins_def)
  from correlation_outcome [where coins = disjoint_coins] h
  have "plot_correlation disjoint_coins
        = Returned [Heatmap (map fst (nonempty_coins disjoint_coins))
                            (corr (aligned_returns disjoint_coins))]"
    by blast
  then show ?thesis unfolding a m .
qed

text \<open>
  The claim as worded fails for two coins without a common date: the second column of
  the aligned returns is all NaN, and the matrix is computed and drawn all the same.
\<close>

theorem disjoint_dates_still_plot:
  "plot_correlation
     [(''BTC'', \<lparr>rows = [(Stamp 1, Finite 100), (Stamp 2, Finite 110), (Stamp 3, Finite 99)],
                 Returns = Some [NaN, Fin (1 / 10), Fin (- 1 / 10)]\<rparr>),
      (''ETH'', \<lparr>rows = [(Stamp 4, Finite 50), (Stamp 5, Finite 55), (Stamp 6, Finite 44)],
                 Returns = Some [NaN, Fin (1 / 10), Fin (- 1 / 5)]\<rparr>)]
   = Returned [Heatmap [''BTC'', ''ETH''] [[Fin 1, NaN], [NaN, NaN]]]"
proof -
  let ?x = "[NaN, Fin (1 / 10), Fin (- 1 / 10)]"
  let ?y = "[NaN, NaN, NaN]"
  have y: "?y = replicate 3 NaN" by (simp add: numeral_3_eq_3)
  have "Fin (1 / 10) \<in> set ?x \<and> Fin (- 1 / 10) \<in> set ?x \<and> (1 / 10 :: real) \<noteq> - 1 / 10"
    by simp
  then have "\<exists>a b. Fin a \<in> set ?x \<and> Fin b \<in> set ?x \<and> a \<noteq> b" by blast
  then have xx: "pearson ?x ?x = Fin 1" by (simp only: pearson_diag if_True)
  have xy: "pearson ?x ?y = NaN" "pearson ?y ?x = NaN" "pearson ?y ?y = NaN"
    unfolding y
    by (rule pearson_no_shared_row [OF finite_pairs_all_NaN],
        rule pearson_no_shared_row [OF finite_pairs_NaN_all],
        rule pearson_no_shared_row [OF finite_pairs_all_NaN])
  have m: "corr [?x, ?y] = [[Fin 1, NaN], [NaN, NaN]]"
    by (simp only: corr_def list.map xx xy)
  have "plot_correlation
     [(''BTC'', \<lparr>rows = [(Stamp 1, Finite 100), (Stamp 2, Finite 110), (Stamp 3, Finite 99)],
                 Returns = Some [NaN, Fin (1 / 10), Fin (- 1 / 10)]\<rparr>),
      (''ETH'', \<lparr>rows = [(Stamp 4, Finite 50), (Stamp 5, Finite 55), (Stamp 6, Finite 44)],
                 Returns = Some [NaN, Fin (1 / 10), Fin (- 1 / 5)]\<rparr>)]
   = Returned [Heatmap [''BTC'', ''ETH''] (corr [?x, ?y])]"
    by (simp add: plot_correlation_def empty_frame_def assign_column_def Index_def
        reindex_def combined_empty_def)
  then show ?thesis unfolding m .
qed

end
